theory Spec2Isabelle
  imports Complex_Main "HOL-Library.Char_ord" "HOL-Library.List_Lexorder"
    "HOL-Library.Product_Lexorder"
begin

section \<open>Strings\<close>

text \<open>
  Python strings are modelled as \<open>string\<close> over ASCII. \<open>str.lower()\<close> maps the
  letters A..Z to a..z (it sets bit 5 of the code) and leaves every other character.
\<close>

definition lower_char :: "char \<Rightarrow> char" where
  "lower_char c =
     (let n = (of_char c :: nat) in
      if 65 \<le> n \<and> n \<le> 90
      then (case c of Char b0 b1 b2 b3 b4 b5 b6 b7 \<Rightarrow> Char b0 b1 b2 b3 b4 True b6 b7)
      else c)"

definition lower_str :: "string \<Rightarrow> string" where
  "lower_str s = map lower_char s"

text \<open>\<open>s.startswith(p)\<close> and the substring test \<open>p in s\<close>.\<close>

fun startswith :: "string \<Rightarrow> string \<Rightarrow> bool" where
  "startswith s [] = True"
| "startswith [] (p # ps) = False"
| "startswith (c # cs) (p # ps) = (c = p \<and> startswith cs ps)"

fun py_in :: "string \<Rightarrow> string \<Rightarrow> bool" where
  "py_in p [] = (p = [])"
| "py_in p (c # cs) = (startswith (c # cs) p \<or> py_in p cs)"

text \<open>
  \<open>str.title()\<close>: the first letter of every run of letters in upper case, the rest
  of the run in lower case. \<open>str.strip()\<close> removes white space at both ends.
\<close>

definition upper_char :: "char \<Rightarrow> char" where
  "upper_char c =
     (let n = (of_char c :: nat) in
      if 97 \<le> n \<and> n \<le> 122
      then (case c of Char b0 b1 b2 b3 b4 b5 b6 b7 \<Rightarrow> Char b0 b1 b2 b3 b4 False b6 b7)
      else c)"

definition is_alpha :: "char \<Rightarrow> bool" where
  "is_alpha c = (let n = (of_char c :: nat) in (65 \<le> n \<and> n \<le> 90) \<or> (97 \<le> n \<and> n \<le> 122))"

definition is_digit :: "char \<Rightarrow> bool" where
  "is_digit c = (let n = (of_char c :: nat) in 48 \<le> n \<and> n \<le> 57)"

definition is_space :: "char \<Rightarrow> bool" where
  "is_space c = (let n = (of_char c :: nat) in (9 \<le> n \<and> n \<le> 13) \<or> (28 \<le> n \<and> n \<le> 32))"

fun title_from :: "bool \<Rightarrow> string \<Rightarrow> string" where
  "title_from prev [] = []"
| "title_from prev (c # cs) =
     (if is_alpha c then (if prev then lower_char c else upper_char c) # title_from True cs
      else c # title_from False cs)"

definition py_title :: "string \<Rightarrow> string" where
  "py_title s = title_from False s"

definition py_strip :: "string \<Rightarrow> string" where
  "py_strip s = rev (dropWhile is_space (rev (dropWhile is_space s)))"

text \<open>\<open>str(n)\<close> for an integer, as the f-strings of the error messages print it.\<close>

definition digit_char :: "nat \<Rightarrow> char" where
  "digit_char d =
     (if d = 0 then CHR ''0'' else if d = 1 then CHR ''1'' else if d = 2 then CHR ''2''
      else if d = 3 then CHR ''3'' else if d = 4 then CHR ''4'' else if d = 5 then CHR ''5''
      else if d = 6 then CHR ''6'' else if d = 7 then CHR ''7'' else if d = 8 then CHR ''8''
      else CHR ''9'')"

function nat_str :: "nat \<Rightarrow> string" where
  "nat_str n = (if n < 10 then [digit_char n] else nat_str (n div 10) @ [digit_char (n mod 10)])"
  by pat_completeness auto
termination
  by (relation "measure (\<lambda>n. n)") auto

definition int_str :: "int \<Rightarrow> string" where
  "int_str i = (if i < 0 then CHR ''-'' # nat_str (nat (- i)) else nat_str (nat i))"

section \<open>Column-role resolution: \<open>pick\<close> and \<open>find_col\<close>\<close>

text \<open>
  Every computation of \<open>query_executor.py\<close> declares the same local helper (named
  \<open>pick\<close> in \<open>_compute_rainfall_compare\<close>, \<open>find_col\<close> elsewhere), closed over the
  table's column names:
  \<^verbatim>\<open>
    for c in candidates:
        if c in df.columns: return c
    lower_map = {c.lower(): c for c in df.columns}
    for c in candidates:
        if c.lower() in lower_map: return lower_map[c.lower()]
    return None
  \<close>
  The first loop is \<open>find_exact\<close>; the dict comprehension is \<open>lower_map\<close>, where a
  later column overwrites an earlier one with the same lower-cased name; the second
  loop is \<open>find_lower\<close>.
\<close>

fun find_exact :: "string list \<Rightarrow> string list \<Rightarrow> string option" where
  "find_exact [] cols = None"
| "find_exact (c # cs) cols = (if c \<in> set cols then Some c else find_exact cs cols)"

fun lower_map :: "string list \<Rightarrow> string \<Rightarrow> string option" where
  "lower_map [] = Map.empty"
| "lower_map (c # cs) =
     (\<lambda>k. case lower_map cs k of
            Some later \<Rightarrow> Some later
          | None \<Rightarrow> if k = lower_str c then Some c else None)"

fun find_lower :: "string list \<Rightarrow> (string \<Rightarrow> string option) \<Rightarrow> string option" where
  "find_lower [] m = None"
| "find_lower (c # cs) m =
     (case m (lower_str c) of Some col \<Rightarrow> Some col | None \<Rightarrow> find_lower cs m)"

definition find_col :: "string list \<Rightarrow> string list \<Rightarrow> string option" where
  "find_col candidates cols =
     (case find_exact candidates cols of
        Some c \<Rightarrow> Some c
      | None \<Rightarrow> find_lower candidates (lower_map cols))"

definition pick :: "string list \<Rightarrow> string list \<Rightarrow> string option" where
  "pick cols df_columns =
     (case find_exact cols df_columns of
        Some c \<Rightarrow> Some c
      | None \<Rightarrow> find_lower cols (lower_map df_columns))"

text \<open>
  The reading of the specification sentence "returns the first candidate present in
  \<open>columns\<close> case-insensitively": the first candidate whose lower-cased name is the
  lower-cased name of some column.
\<close>

definition first_ci_candidate :: "string list \<Rightarrow> string list \<Rightarrow> string option" where
  "first_ci_candidate candidates cols =
     find (\<lambda>c. lower_str c \<in> lower_str ` set cols) candidates"

text \<open>
  What the code resolves to, written without the loops: the first candidate that is a
  column as it stands; failing that, for the first candidate that is a column up to
  case, the last column with that lower-cased name.
\<close>

definition resolve_two_pass :: "string list \<Rightarrow> string list \<Rightarrow> string option" where
  "resolve_two_pass candidates cols =
     (case find (\<lambda>c. c \<in> set cols) candidates of
        Some c \<Rightarrow> Some c
      | None \<Rightarrow>
          (case first_ci_candidate candidates cols of
             Some c \<Rightarrow> find (\<lambda>col. lower_str col = lower_str c) (rev cols)
           | None \<Rightarrow> None))"

text \<open>The candidate lists of \<open>_compute_top_crops_state\<close> (and most other computations).\<close>

definition state_candidates :: "string list" where
  "state_candidates =
     [''State_Name'', ''STATE'', ''State'', ''STATE/UT'', ''STATE_UT_NAME'', ''State Name'']"

definition crop_candidates :: "string list" where
  "crop_candidates = [''Crop'', ''CROP'', ''Crop_Name'', ''Commodity'', ''CROP_NAME'']"

text \<open>
  Python's truth test of a resolved column (\<open>if not (sc and yc and ac)\<close>,
  \<open>find_col(...) or "Production"\<close>): \<open>None\<close> and the empty string are false.
\<close>

fun truthy :: "string option \<Rightarrow> bool" where
  "truthy None = False"
| "truthy (Some c) = (c \<noteq> [])"

section \<open>Values, exceptions and tables\<close>

text \<open>
  Python values that occur in plans and in result payloads. A dict is an association
  list in insertion order; \<open>dict_set\<close> is \<open>d[k] = v\<close> (an existing key keeps its
  place). Floats are modelled by exact rationals, \<open>VNaN\<close> is the float NaN.
\<close>

datatype pyval =
    VNone
  | VBool bool
  | VInt int
  | VFloat rat
  | VNaN
  | VStr string
  | VList "pyval list"
  | VDict "(string \<times> pyval) list"

type_synonym pydict = "(string \<times> pyval) list"

fun dict_set :: "pydict \<Rightarrow> string \<Rightarrow> pyval \<Rightarrow> pydict" where
  "dict_set [] k v = [(k, v)]"
| "dict_set ((k', v') # d) k v = (if k' = k then (k, v) # d else (k', v') # dict_set d k v)"

definition dict_get :: "pydict \<Rightarrow> string \<Rightarrow> pyval option" where
  "dict_get d k = map_of d k"

text \<open>The exceptions the modelled code can raise; each constructor is a Python class.\<close>

datatype exn =
    KeyError string
  | AttributeError
  | TypeError
  | ValueError
  | NameError string
  | IndexError
  | RuntimeError
  | NetworkError
  | Exception string

text \<open>
  A table (a pandas DataFrame built by \<open>DataFrame.from_records\<close>): an ordered list of
  column names and a list of rows, each row a field-name to value map. A cell is a
  number, a string or missing (None / NaN). \<open>df.empty\<close> holds when either axis is
  empty.
\<close>

datatype cell = CNull | CNum rat | CStr string

type_synonym row = "(string \<times> cell) list"

record table =
  columns :: "string list"
  rows :: "row list"

definition empty_table :: table where
  "empty_table = \<lparr>columns = [], rows = []\<rparr>"

definition df_empty :: "table \<Rightarrow> bool" where
  "df_empty df = (columns df = [] \<or> rows df = [])"

definition cell_of :: "row \<Rightarrow> string \<Rightarrow> cell" where
  "cell_of r c = (case map_of r c of Some v \<Rightarrow> v | None \<Rightarrow> CNull)"

definition col_vals :: "string \<Rightarrow> row list \<Rightarrow> cell list" where
  "col_vals c rs = map (\<lambda>r. cell_of r c) rs"

fun num_of :: "cell \<Rightarrow> rat option" where
  "num_of (CNum x) = Some x"
| "num_of _ = None"

definition nums :: "cell list \<Rightarrow> rat list" where
  "nums cs = List.map_filter num_of cs"

text \<open>
  \<open>DataStore\<close>: two dicts of tables and one of metadata. \<open>get_dataset\<close> looks in
  \<open>agriculture_data\<close> first, then in \<open>climate_data\<close>.
\<close>

record data_store =
  agriculture_data :: "string \<Rightarrow> table option"
  climate_data :: "string \<Rightarrow> table option"
  metadata :: "string \<Rightarrow> (string \<times> string) list option"

definition add_dataset ::
  "data_store \<Rightarrow> string \<Rightarrow> string \<Rightarrow> table \<Rightarrow> (string \<times> string) list \<Rightarrow> data_store" where
  "add_dataset ds category name df meta =
     (let ds1 =
        (if category = ''agriculture''
         then ds\<lparr>agriculture_data := (agriculture_data ds)(name \<mapsto> df)\<rparr>
         else if category = ''climate''
         then ds\<lparr>climate_data := (climate_data ds)(name \<mapsto> df)\<rparr>
         else ds)
      in ds1\<lparr>metadata := (metadata ds1)(name \<mapsto> meta)\<rparr>)"

definition get_dataset :: "data_store \<Rightarrow> string \<Rightarrow> table option" where
  "get_dataset ds name =
     (case agriculture_data ds name of
        Some df \<Rightarrow> Some df
      | None \<Rightarrow> climate_data ds name)"

text \<open>
  The computations assign coerced columns to the DataFrame object they got from
  the store (\<open>df[col] = pd.to_numeric(...)\<close>), so the stored table changes with it.
  \<open>put_back\<close> writes the changed table to the place \<open>get_dataset\<close> read it from.
\<close>

definition put_back :: "data_store \<Rightarrow> string \<Rightarrow> table \<Rightarrow> data_store" where
  "put_back ds name df =
     (case agriculture_data ds name of
        Some old \<Rightarrow> ds\<lparr>agriculture_data := (agriculture_data ds)(name \<mapsto> df)\<rparr>
      | None \<Rightarrow>
          (case climate_data ds name of
             Some old \<Rightarrow> ds\<lparr>climate_data := (climate_data ds)(name \<mapsto> df)\<rparr>
           | None \<Rightarrow> ds))"

text \<open>
  The parts of the Python and pandas libraries that read or print numbers are
  parameters: \<open>parse_num s\<close> is what \<open>pandas.to_numeric\<close> makes of the string \<open>s\<close>
  (\<open>None\<close> when it is not numeric), \<open>parse_float s\<close> is \<open>float(s)\<close> (\<open>None\<close> for
  ValueError), \<open>num_str x\<close> is \<open>str(x)\<close>. The configuration object of the absent
  module \<open>config\<close> and the network are parameters too: the three resource ids, the API
  key, \<open>http_fetch rid use_ckan\<close> (the request made by \<open>DataFetcher\<close> once the key
  is accepted) and the resource id found by \<open>DataGovInClient\<close>'s discovery. The last
  parameter, \<open>untyped_call\<close>, is the outcome of calling a computation (named by its
  method) with arguments that are not all of the types it is written for.
\<close>

record env =
  parse_num :: "string \<Rightarrow> rat option"
  parse_float :: "string \<Rightarrow> rat option"
  num_str :: "rat \<Rightarrow> string"
  rainfall_resource_id :: "string option"
  crop_production_resource_id :: "string option"
  district_crop_production_resource_id :: "string option"
  data_gov_in_api_key :: "string option"
  http_fetch :: "string \<Rightarrow> bool \<Rightarrow> exn + table"
  discover_district_crop_production_resource_id :: "exn + string option"
  untyped_call :: "string \<Rightarrow> pyval list \<Rightarrow> data_store \<Rightarrow> exn + (pyval \<times> data_store)"

subsection \<open>pandas operations\<close>

text \<open>
  \<open>pd.to_numeric(series, errors="coerce")\<close>, cell by cell: numbers stay, numeric strings
  are read, everything else becomes NaN.
\<close>

fun to_numeric :: "env \<Rightarrow> cell \<Rightarrow> cell" where
  "to_numeric e CNull = CNull"
| "to_numeric e (CNum x) = CNum x"
| "to_numeric e (CStr s) = (case parse_num e s of Some x \<Rightarrow> CNum x | None \<Rightarrow> CNull)"

text \<open>\<open>df[c] = f(df[c])\<close> for a column \<open>c\<close> of the table.\<close>

definition map_col :: "(cell \<Rightarrow> cell) \<Rightarrow> string \<Rightarrow> table \<Rightarrow> table" where
  "map_col f c df =
     df\<lparr>rows := map (map (\<lambda>(k, v). if k = c then (k, f v) else (k, v))) (rows df)\<rparr>"

text \<open>\<open>series.astype(str)\<close>: a missing value prints as \<open>nan\<close>.\<close>

fun astype_str :: "env \<Rightarrow> cell \<Rightarrow> string" where
  "astype_str e CNull = ''nan''"
| "astype_str e (CNum x) = num_str e x"
| "astype_str e (CStr s) = s"

text \<open>
  \<open>series.str.contains(pat, case=False, na=False)\<close>. pandas reads \<open>pat\<close> as a regular
  expression; the model is the case-insensitive substring test, which is what the
  regular expression means when \<open>pat\<close> consists of letters, digits, spaces and
  underscores (\<open>plain_name\<close>), the only names the parser's patterns capture.
  On a series that was not converted with \<open>astype(str)\<close> a cell that is not a string
  gives NaN, which \<open>na=False\<close> turns into \<open>False\<close>; the \<open>.str\<close> accessor itself
  raises AttributeError on a column of numeric dtype (\<open>numeric_dtype\<close>: numbers, no
  strings).
\<close>

definition plain_char :: "char \<Rightarrow> bool" where
  "plain_char c =
     (let n = (of_char c :: nat) in
      (48 \<le> n \<and> n \<le> 57) \<or> (65 \<le> n \<and> n \<le> 90) \<or> (97 \<le> n \<and> n \<le> 122) \<or> n = 32 \<or> n = 95)"

definition plain_name :: "string \<Rightarrow> bool" where
  "plain_name s = list_all plain_char s"

definition contains_ci :: "string \<Rightarrow> string \<Rightarrow> bool" where
  "contains_ci pat s = py_in (lower_str pat) (lower_str s)"

fun str_contains :: "string \<Rightarrow> cell \<Rightarrow> bool" where
  "str_contains pat (CStr s) = contains_ci pat s"
| "str_contains pat _ = False"

definition astype_str_contains :: "env \<Rightarrow> string \<Rightarrow> cell \<Rightarrow> bool" where
  "astype_str_contains e pat v = contains_ci pat (astype_str e v)"

fun is_str :: "cell \<Rightarrow> bool" where
  "is_str (CStr s) = True"
| "is_str _ = False"

fun is_num :: "cell \<Rightarrow> bool" where
  "is_num (CNum x) = True"
| "is_num _ = False"

definition numeric_dtype :: "cell list \<Rightarrow> bool" where
  "numeric_dtype vs = (list_ex is_num vs \<and> \<not> list_ex is_str vs)"

text \<open>
  \<open>sorted(series.dropna().unique())\<close> on a numeric column, the slice \<open>xs[-k:]\<close> and
  \<open>df.head(n)\<close>. For \<open>k = 0\<close> the slice is \<open>xs[0:]\<close>, the whole list; for a negative
  \<open>k\<close> it drops the first \<open>-k\<close> elements. \<open>head\<close> with a negative \<open>n\<close> drops the
  last \<open>-n\<close> rows.
\<close>

definition sorted_unique :: "cell list \<Rightarrow> rat list" where
  "sorted_unique vs = sort (remdups (nums vs))"

definition py_tail :: "int \<Rightarrow> 'a list \<Rightarrow> 'a list" where
  "py_tail k xs = (if 0 < k then drop (length xs - nat k) xs else drop (nat (- k)) xs)"

definition py_head :: "int \<Rightarrow> 'a list \<Rightarrow> 'a list" where
  "py_head n xs = (if 0 \<le> n then take (nat n) xs else take (length xs - nat (- n)) xs)"

definition isin :: "rat list \<Rightarrow> cell \<Rightarrow> bool" where
  "isin ys v = (case v of CNum y \<Rightarrow> y \<in> set ys | _ \<Rightarrow> False)"

text \<open>
  \<open>series.mean()\<close> and \<open>series.sum()\<close> of a numeric column skip NaN; the mean of no
  value is NaN, the sum of no value is 0.
\<close>

definition series_mean :: "cell list \<Rightarrow> pyval" where
  "series_mean vs =
     (let xs = nums vs in
      if xs = [] then VNaN else VFloat (sum_list xs / of_nat (length xs)))"

definition series_sum :: "cell list \<Rightarrow> rat" where
  "series_sum vs = sum_list (nums vs)"

text \<open>
  \<open>df.groupby(key, as_index=False)[val].sum()\<close>: one row per distinct key that is not
  missing, in ascending key order (numbers before strings, strings by code point), with
  the sum of the group's values. \<open>sort_values(val, ascending=False)\<close> is modelled as a
  stable sort, so among equal sums the key order of the grouping stays.
\<close>

fun cell_key :: "cell \<Rightarrow> nat \<times> rat \<times> string" where
  "cell_key (CNum x) = (0, x, [])"
| "cell_key (CStr s) = (1, 0, s)"
| "cell_key CNull = (2, 0, [])"

definition group_keys :: "cell list \<Rightarrow> cell list" where
  "group_keys ks = sort_key cell_key (remdups (filter (\<lambda>k. k \<noteq> CNull) ks))"

definition groupby_sum :: "string \<Rightarrow> string \<Rightarrow> row list \<Rightarrow> (cell \<times> rat) list" where
  "groupby_sum key val rs =
     map (\<lambda>k. (k, series_sum (col_vals val (filter (\<lambda>r. cell_of r key = k) rs))))
       (group_keys (col_vals key rs))"

definition sort_desc :: "(cell \<times> rat) list \<Rightarrow> (cell \<times> rat) list" where
  "sort_desc gs = sort_key (\<lambda>g. - snd g) gs"

text \<open>A cell as a Python value, and \<open>to_dict(orient="records")\<close> of a grouped frame.\<close>

fun cell_val :: "cell \<Rightarrow> pyval" where
  "cell_val CNull = VNaN"
| "cell_val (CNum x) = VFloat x"
| "cell_val (CStr s) = VStr s"

definition records :: "string \<Rightarrow> string \<Rightarrow> (cell \<times> rat) list \<Rightarrow> pyval" where
  "records key val gs = VList (map (\<lambda>(k, v). VDict [(key, cell_val k), (val, VFloat v)]) gs)"

text \<open>\<open>int(x)\<close> of a float truncates towards zero.\<close>

definition py_int :: "rat \<Rightarrow> int" where
  "py_int x = (if 0 \<le> x then \<lfloor>x\<rfloor> else \<lceil>x\<rceil>)"

section \<open>Data fetcher\<close>

text \<open>
  \<open>DataFetcher.fetch_dataset\<close>: a resource id starting with \<open>sample_\<close> gives an empty
  table; a missing or placeholder API key raises RuntimeError; otherwise the request
  is made.
\<close>

definition fetch_dataset :: "env \<Rightarrow> string \<Rightarrow> bool \<Rightarrow> exn + table" where
  "fetch_dataset e resource_id use_ckan =
     (if startswith resource_id ''sample_'' then Inr empty_table
      else if \<not> truthy (data_gov_in_api_key e) \<or> data_gov_in_api_key e = Some ''YOUR_KEY_HERE''
      then Inl RuntimeError
      else http_fetch e resource_id use_ckan)"

text \<open>
  \<open>_load_crop_production\<close> passes the configured id on as it is: \<open>None\<close> has no
  \<open>startswith\<close>. \<open>_load_rainfall\<close> returns an empty table when no id is configured.
\<close>

definition load_crop_production :: "env \<Rightarrow> exn + table" where
  "load_crop_production e =
     (case crop_production_resource_id e of
        None \<Rightarrow> Inl AttributeError
      | Some rid \<Rightarrow> fetch_dataset e rid False)"

definition load_rainfall :: "env \<Rightarrow> exn + table" where
  "load_rainfall e =
     (if \<not> truthy (rainfall_resource_id e) then Inr empty_table
      else (case rainfall_resource_id e of
              None \<Rightarrow> Inr empty_table
            | Some rid \<Rightarrow> fetch_dataset e rid False))"

section \<open>The computations of \<open>QueryExecutor\<close>\<close>

definition state_col_candidates :: "string list" where
  "state_col_candidates =
     [''STATE'', ''STATE_UT_NAME'', ''SUBDIVISION'', ''State'', ''STATE/UT'', ''subdivision'']"

definition year_col_candidates :: "string list" where
  "year_col_candidates = [''YEAR'', ''Year'', ''year'', ''Year'', ''YEAR'']"

definition annual_col_candidates :: "string list" where
  "annual_col_candidates = [''ANNUAL'', ''Annual'', ''ANN'', ''Rainfall'', ''annual'']"

definition prod_candidates :: "string list" where
  "prod_candidates = [''Production'', ''PRODUCTION'', ''Prodn'', ''PROD'', ''production_tonnes'']"

definition year_candidates :: "string list" where
  "year_candidates = [''Year'', ''YEAR'', ''year'']"

text \<open>\<open>x or "Production"\<close> for a resolved column \<open>x\<close>.\<close>

fun or_else :: "string option \<Rightarrow> string \<Rightarrow> string" where
  "or_else None d = d"
| "or_else (Some c) d = (if c = [] then d else c)"

subsection \<open>\<open>_compute_rainfall_compare\<close>\<close>

text \<open>
  The rows of the selected years, and the entry \<open>out[s]\<close> of one state: the selected
  years and the mean of the annual column over the rows of \<open>sub\<close> whose state column
  contains \<open>s\<close>, \<open>None\<close> when there is no such row.
\<close>

definition rainfall_entry :: "string \<Rightarrow> string \<Rightarrow> rat list \<Rightarrow> row list \<Rightarrow> string \<Rightarrow> pyval" where
  "rainfall_entry sc ac recent_years sub s =
     (let s_sub = filter (\<lambda>r. str_contains s (cell_of r sc)) sub in
      VDict [(''years'', VList (map VFloat recent_years)),
             (''avg_annual_mm'', if s_sub \<noteq> [] then series_mean (col_vals ac s_sub) else VNone)])"

definition compute_rainfall_compare :: "env \<Rightarrow> string \<Rightarrow> string \<Rightarrow> int \<Rightarrow> exn + pyval" where
  "compute_rainfall_compare e state1 state2 years =
     (case load_rainfall e of
        Inl x \<Rightarrow> Inl x
      | Inr df0 \<Rightarrow>
          if df_empty df0 then Inr (VDict [(''note'', VStr ''No rainfall dataset configured'')])
          else
            let sc = pick state_col_candidates (columns df0);
                yc = pick year_col_candidates (columns df0);
                ac = pick annual_col_candidates (columns df0)
            in if \<not> (truthy sc \<and> truthy yc \<and> truthy ac)
               then Inr (VDict [(''error'', VStr ''Rainfall dataset has unexpected schema''),
                                (''columns'', VList (map VStr (columns df0)))])
               else
                 let scn = or_else sc []; ycn = or_else yc []; acn = or_else ac [];
                     df = map_col (to_numeric e) acn (map_col (to_numeric e) ycn df0);
                     recent_years = py_tail years (sorted_unique (col_vals ycn (rows df)));
                     sub = filter (\<lambda>r. isin recent_years (cell_of r ycn)) (rows df)
                 in if numeric_dtype (col_vals scn (rows df)) then Inl AttributeError
                    else Inr (VDict (dict_set
                           (dict_set [] state1 (rainfall_entry scn acn recent_years sub state1))
                           state2 (rainfall_entry scn acn recent_years sub state2))))"

subsection \<open>\<open>_compute_top_crops\<close>\<close>

definition coerce_if_present :: "env \<Rightarrow> string \<Rightarrow> table \<Rightarrow> table" where
  "coerce_if_present e col df = (if col \<in> set (columns df) then map_col (to_numeric e) col df else df)"

definition top_crops_entry ::
  "env \<Rightarrow> string \<Rightarrow> string \<Rightarrow> string \<Rightarrow> row list \<Rightarrow> int \<Rightarrow> string \<Rightarrow> string \<Rightarrow> pyval" where
  "top_crops_entry e state_col crop_col prod_col rs top_m crop_type s =
     (let s_df0 = filter (\<lambda>r. astype_str_contains e s (cell_of r state_col)) rs;
          s_df = (if crop_type \<noteq> []
                  then filter (\<lambda>r. astype_str_contains e crop_type (cell_of r crop_col)) s_df0
                  else s_df0)
      in records crop_col prod_col (py_head top_m (sort_desc (groupby_sum crop_col prod_col s_df))))"

definition compute_top_crops :: "env \<Rightarrow> string \<Rightarrow> string \<Rightarrow> int \<Rightarrow> string \<Rightarrow> exn + pyval" where
  "compute_top_crops e state1 state2 top_m crop_type =
     (case load_crop_production e of
        Inl x \<Rightarrow> Inl x
      | Inr df0 \<Rightarrow>
          if df_empty df0 then Inr (VDict [(''note'', VStr ''Crop production dataset empty'')])
          else
            let state_col = find_col state_candidates (columns df0);
                crop_col = find_col crop_candidates (columns df0);
                prod_col = or_else (find_col prod_candidates (columns df0)) ''Production'';
                df = coerce_if_present e ''Area'' (coerce_if_present e prod_col df0)
            in if \<not> truthy state_col \<or> \<not> truthy crop_col \<or> prod_col \<notin> set (columns df)
               then Inr (VDict [(''error'', VStr ''Crop dataset schema unexpected''),
                                (''columns'', VList (map VStr (columns df)))])
               else
                 let scn = or_else state_col []; ccn = or_else crop_col [] in
                 Inr (VDict (dict_set
                   (dict_set [] state1 (top_crops_entry e scn ccn prod_col (rows df) top_m crop_type state1))
                   state2 (top_crops_entry e scn ccn prod_col (rows df) top_m crop_type state2))))"

subsection \<open>Loading the district table\<close>

text \<open>
  \<open>_validate_crop_production_schema\<close> asks for a state, a district, a crop and a
  production column; its candidate lists are a little longer than the ones the
  computations use.
\<close>

definition validate_crop_production_schema :: "table \<Rightarrow> bool" where
  "validate_crop_production_schema df =
     (if df_empty df then False
      else
        let state_col = find_col (state_candidates @ [''state'']) (columns df);
            district_col = find_col
              [''District_Name'', ''District'', ''DISTRICT'', ''District Name'', ''district'']
              (columns df);
            crop_col = find_col (crop_candidates @ [''crop'']) (columns df);
            prod_col = find_col (prod_candidates @ [''Prod'', ''production'']) (columns df)
        in truthy state_col \<and> truthy district_col \<and> truthy crop_col \<and> truthy prod_col)"

definition district_name :: string where
  "district_name = ''crop_production_district_season''"

definition major_crops_name :: string where
  "major_crops_name = ''crop_production_major_crops''"

text \<open>
  One fetch inside \<open>try: ... except Exception\<close>: a table that was fetched and
  validates, or nothing.
\<close>

definition fetch_valid :: "env \<Rightarrow> string \<Rightarrow> bool \<Rightarrow> table option" where
  "fetch_valid e rid use_ckan =
     (case fetch_dataset e rid use_ckan of
        Inl x \<Rightarrow> None
      | Inr df \<Rightarrow> if validate_crop_production_schema df then Some df else None)"

definition cache_district :: "data_store \<Rightarrow> string \<Rightarrow> table \<Rightarrow> data_store" where
  "cache_district ds rid df =
     add_dataset ds ''agriculture'' district_name df
       [(''id'', rid), (''name'', ''District-wise Season-wise Crop Production'')]"

fun try_resource_ids :: "env \<Rightarrow> data_store \<Rightarrow> string list \<Rightarrow> table \<times> data_store" where
  "try_resource_ids e ds [] = (empty_table, ds)"
| "try_resource_ids e ds (rid # rids) =
     (case fetch_valid e rid True of
        Some df \<Rightarrow> (df, cache_district ds rid df)
      | None \<Rightarrow>
          (case fetch_valid e rid False of
             Some df \<Rightarrow> (df, cache_district ds rid df)
           | None \<Rightarrow> try_resource_ids e ds rids))"

definition resource_ids_to_try :: "env \<Rightarrow> string list" where
  "resource_ids_to_try e =
     (let configured =
            (if truthy (district_crop_production_resource_id e)
             then [or_else (district_crop_production_resource_id e) []] else [])
      in case discover_district_crop_production_resource_id e of
           Inl x \<Rightarrow> configured
         | Inr discovered \<Rightarrow>
             if truthy discovered \<and> or_else discovered [] \<notin> set configured
             then configured @ [or_else discovered []] else configured)"

definition load_district_crop_production :: "env \<Rightarrow> data_store \<Rightarrow> table \<times> data_store" where
  "load_district_crop_production e ds =
     (case get_dataset ds district_name of
        Some df \<Rightarrow>
          if \<not> df_empty df \<and> validate_crop_production_schema df then (df, ds)
          else try_resource_ids e ds (resource_ids_to_try e)
      | None \<Rightarrow> try_resource_ids e ds (resource_ids_to_try e))"

text \<open>The error of the three district computations when no district table was found.\<close>

definition not_available_msg :: "env \<Rightarrow> string" where
  "not_available_msg e =
     ''District crop production dataset not available. Resource ID: '' @
       or_else (district_crop_production_resource_id e) ''not configured''"

definition not_available_hint :: string where
  "not_available_hint =
     ''The district crop production resource ID may be incorrect or the dataset may not be accessible.''"

definition district_candidates :: "string list" where
  "district_candidates = [''District_Name'', ''District'', ''DISTRICT'', ''District Name'']"

definition prod_candidates6 :: "string list" where
  "prod_candidates6 = prod_candidates @ [''Prod'']"

definition all_truthy :: "string option list \<Rightarrow> bool" where
  "all_truthy cs = list_all truthy cs"

definition opt_val :: "string option \<Rightarrow> pyval" where
  "opt_val c = (case c of None \<Rightarrow> VNone | Some n \<Rightarrow> VStr n)"

text \<open>Rows whose state and crop columns, as strings, contain the two names.\<close>

definition state_crop_rows ::
  "env \<Rightarrow> string \<Rightarrow> string \<Rightarrow> string \<Rightarrow> string \<Rightarrow> row list \<Rightarrow> row list" where
  "state_crop_rows e state_col crop_col state crop rs =
     filter (\<lambda>r. astype_str_contains e state (cell_of r state_col) \<and>
                 astype_str_contains e crop (cell_of r crop_col)) rs"

subsection \<open>\<open>_compute_district_crop_extrema\<close>\<close>

text \<open>
  \<open>extrema_for\<close>: \<open>None\<close> when no row matches or no year is numeric; otherwise the
  first row of the district sums of the most recent year, sorted descending for
  \<open>max\<close> and ascending for \<open>min\<close>. \<open>grouped.iloc[0]\<close> raises IndexError when every
  district of that year is missing.
\<close>

definition extrema_for ::
  "env \<Rightarrow> string \<Rightarrow> string \<Rightarrow> string \<Rightarrow> string \<Rightarrow> string \<Rightarrow> row list \<Rightarrow>
     string \<Rightarrow> string \<Rightarrow> bool \<Rightarrow> exn + pyval" where
  "extrema_for e state_col district_col crop_col prod_col year_col rs state crop is_min =
     (let sub = state_crop_rows e state_col crop_col state crop rs in
      if sub = [] then Inr VNone
      else
        let years = sorted_unique (col_vals year_col sub) in
        if years = [] then Inr VNone
        else
          let recent = last years;
              sub_recent = filter (\<lambda>r. cell_of r year_col = CNum recent) sub;
              g = groupby_sum district_col prod_col sub_recent;
              grouped = (if is_min then sort_key snd g else sort_desc g)
          in case grouped of
               [] \<Rightarrow> Inl IndexError
             | (d, p) # rest \<Rightarrow>
                 Inr (VDict [(''state'', VStr state), (''crop'', VStr crop),
                             (''district'', VStr (astype_str e d)),
                             (''year'', VInt (py_int recent)),
                             (''production'', VFloat p)]))"

definition compute_district_crop_extrema ::
  "env \<Rightarrow> data_store \<Rightarrow> string \<Rightarrow> string \<Rightarrow> string \<Rightarrow> string \<Rightarrow> exn + (pyval \<times> data_store)" where
  "compute_district_crop_extrema e ds0 state_max crop_max state_min crop_min =
     (case load_district_crop_production e ds0 of
        (df0, ds) \<Rightarrow>
          if df_empty df0
          then Inr (VDict [(''error'', VStr (not_available_msg e)),
                           (''hint'', VStr not_available_hint)], ds)
          else
            let state_col = find_col state_candidates (columns df0);
                district_col = find_col district_candidates (columns df0);
                crop_col = find_col crop_candidates (columns df0);
                prod_col = find_col prod_candidates6 (columns df0);
                year_col = find_col year_candidates (columns df0)
            in if \<not> all_truthy [state_col, district_col, crop_col, prod_col, year_col]
               then Inr (VDict [(''error'', VStr ''District dataset schema unexpected''),
                                (''columns'', VList (map VStr (columns df0)))], ds)
               else
                 let scn = or_else state_col []; dcn = or_else district_col [];
                     ccn = or_else crop_col []; pcn = or_else prod_col [];
                     ycn = or_else year_col [];
                     df = map_col (to_numeric e) ycn (map_col (to_numeric e) pcn df0);
                     ds' = put_back ds district_name df
                 in case extrema_for e scn dcn ccn pcn ycn (rows df) state_max crop_max False of
                      Inl x \<Rightarrow> Inl x
                    | Inr mx \<Rightarrow>
                        (case extrema_for e scn dcn ccn pcn ycn (rows df) state_min crop_min True of
                           Inl x \<Rightarrow> Inl x
                         | Inr mn \<Rightarrow> Inr (VDict [(''max'', mx), (''min'', mn)], ds')))"

subsection \<open>\<open>_try_state_level_fallback\<close>\<close>

text \<open>
  \<open>float(filtered[prod_col].sum())\<close>. The rows of \<open>filtered\<close> were copied out of
  \<open>df\<close> before \<open>df[prod_col]\<close> was coerced, so the sum runs over the cells as they
  were loaded: numbers add up (missing values count 0); strings alone are
  concatenated by \<open>+\<close> and the result is read by \<open>float\<close>; strings mixed with
  numbers or missing values raise TypeError. \<open>None\<close> stands for an exception.
\<close>

fun the_str :: "cell \<Rightarrow> string" where
  "the_str (CStr s) = s"
| "the_str _ = []"

definition raw_sum_float :: "env \<Rightarrow> cell list \<Rightarrow> rat option" where
  "raw_sum_float e vs =
     (if \<not> list_ex is_str vs then Some (series_sum vs)
      else if list_all is_str vs then parse_float e (concat (map the_str vs))
      else None)"

text \<open>
  The whole body is inside \<open>try: ... except Exception: return None\<close>. The table comes
  from the store (then the coerced columns are written to the stored table) or from
  a fetch.
\<close>

definition try_state_level_fallback ::
  "env \<Rightarrow> data_store \<Rightarrow> string \<Rightarrow> string \<Rightarrow> int \<Rightarrow> pydict option \<times> data_store" where
  "try_state_level_fallback e ds state crop year =
     (let stored = (case get_dataset ds major_crops_name of
                      Some d \<Rightarrow> if df_empty d then None else Some d
                    | None \<Rightarrow> None);
          keep = (\<lambda>df. if stored = None then ds else put_back ds major_crops_name df)
      in case (case stored of Some d \<Rightarrow> Inr d | None \<Rightarrow> load_crop_production e) of
           Inl x \<Rightarrow> (None, ds)
         | Inr df0 \<Rightarrow>
             if df_empty df0 then (None, ds)
             else
               let state_col = find_col state_candidates (columns df0);
                   crop_col = find_col crop_candidates (columns df0);
                   prod_col = find_col prod_candidates (columns df0);
                   year_col = find_col year_candidates (columns df0)
               in if \<not> all_truthy [state_col, crop_col, prod_col] then (None, ds)
                  else
                    let scn = or_else state_col []; ccn = or_else crop_col [];
                        pcn = or_else prod_col []; ycn = or_else year_col [];
                        by_year = (truthy year_col \<and> year \<noteq> 0);
                        filtered0 = state_crop_rows e scn ccn state crop (rows df0);
                        df1 = (if by_year then map_col (to_numeric e) ycn df0 else df0);
                        filtered = (if by_year
                                    then filter (\<lambda>r. cell_of r ycn = CNum (of_int year)) filtered0
                                    else filtered0)
                    in if filtered = [] then (None, keep df1)
                       else
                         let df2 = map_col (to_numeric e) pcn df1 in
                         case raw_sum_float e (col_vals pcn filtered) of
                           None \<Rightarrow> (None, keep df2)
                         | Some total_production \<Rightarrow>
                             (Some [(''state'', VStr state), (''crop'', VStr crop),
                                    (''year'', VInt year),
                                    (''total_production'', VFloat total_production),
                                    (''note'', VStr ''State-level data (district-level not available)'')],
                              keep df2))"

subsection \<open>\<open>_compute_district_highest_crop_year\<close>\<close>

definition fallback_warning :: string where
  "fallback_warning = ''District-level data not available. Showing state-level summary instead.''"

definition fallback_note :: string where
  "fallback_note =
     ''For specific district information, please ensure DISTRICT_CROP_PRODUCTION_RESOURCE_ID is correctly configured.''"

definition fallback_suggestion :: string where
  "fallback_suggestion =
     ''To get district-level data, try configuring a valid resource ID for district crop production.''"

definition required_columns :: "string list" where
  "required_columns = [''State'', ''District'', ''Crop'', ''Production'', ''Year'']"

definition alternative_queries :: "string \<Rightarrow> string \<Rightarrow> string list" where
  "alternative_queries state crop =
     [''List the top 10 crops produced in '' @ py_title state @ '' during the last 5 years'',
      ''Compare '' @ crop @ '' production across all districts in '' @ py_title state @
        '' for the last 5 years'']"

definition unavailable_error :: "env \<Rightarrow> string \<Rightarrow> string \<Rightarrow> pyval" where
  "unavailable_error e state crop =
     VDict [(''error'', VStr (not_available_msg e)),
            (''hint'', VStr not_available_hint),
            (''required_columns'', VList (map VStr required_columns)),
            (''suggestion'', VStr (''Try a state-level query instead, such as '' @ [CHR 0x27] @
               ''List the top crops produced in '' @ py_title state @ [CHR 0x27] @
               '' or check your DISTRICT_CROP_PRODUCTION_RESOURCE_ID configuration.'')),
            (''alternative_queries'', VList (map VStr (alternative_queries state crop)))]"

text \<open>\<open>{**fallback_result, "warning": ..., "note": ..., "suggestion": ...}\<close>\<close>

definition degraded_answer :: "pydict \<Rightarrow> pyval" where
  "degraded_answer fallback_result =
     VDict (dict_set (dict_set (dict_set fallback_result
        ''warning'' (VStr fallback_warning))
        ''note'' (VStr fallback_note))
        ''suggestion'' (VStr fallback_suggestion))"

text \<open>
  \<open>grouped.loc[grouped[prod_col].idxmax()]\<close>: the first row with the greatest sum;
  \<open>idxmax\<close> of an empty series raises ValueError.
\<close>

fun idxmax_row :: "(cell \<times> rat) list \<Rightarrow> (cell \<times> rat) option" where
  "idxmax_row [] = None"
| "idxmax_row (g # gs) =
     (case idxmax_row gs of
        None \<Rightarrow> Some g
      | Some m \<Rightarrow> if snd m > snd g then Some m else Some g)"

definition compute_district_highest_crop_year ::
  "env \<Rightarrow> data_store \<Rightarrow> string \<Rightarrow> string \<Rightarrow> int \<Rightarrow> exn + (pyval \<times> data_store)" where
  "compute_district_highest_crop_year e ds0 state crop year =
     (case load_district_crop_production e ds0 of
        (df0, ds) \<Rightarrow>
          if df_empty df0
          then (case try_state_level_fallback e ds state crop year of
                  (fallback_result, ds') \<Rightarrow>
                    (case fallback_result of
                       Some fb \<Rightarrow> Inr (degraded_answer fb, ds')
                     | None \<Rightarrow> Inr (unavailable_error e state crop, ds')))
          else
            let state_col = find_col state_candidates (columns df0);
                district_col = find_col district_candidates (columns df0);
                crop_col = find_col crop_candidates (columns df0);
                prod_col = find_col prod_candidates6 (columns df0);
                year_col = find_col year_candidates (columns df0)
            in if \<not> all_truthy [state_col, district_col, crop_col, prod_col, year_col]
               then Inr (VDict
                 [(''error'', VStr ''District dataset schema unexpected - dataset does not contain required crop production columns''),
                  (''columns'', VList (map VStr (columns df0))),
                  (''required_columns'', VDict
                     [(''state'', VStr ''State_Name/STATE/State''),
                      (''district'', VStr ''District_Name/District/DISTRICT''),
                      (''crop'', VStr ''Crop/CROP/Crop_Name''),
                      (''production'', VStr ''Production/PRODUCTION/Prodn''),
                      (''year'', VStr ''Year/YEAR/year'')]),
                  (''found_columns'', VDict
                     [(''state'', opt_val state_col), (''district'', opt_val district_col),
                      (''crop'', opt_val crop_col), (''production'', opt_val prod_col),
                      (''year'', opt_val year_col)])], ds)
               else
                 let scn = or_else state_col []; dcn = or_else district_col [];
                     ccn = or_else crop_col []; pcn = or_else prod_col [];
                     ycn = or_else year_col [];
                     df = map_col (to_numeric e) ycn (map_col (to_numeric e) pcn df0);
                     ds' = put_back ds district_name df;
                     filtered = filter (\<lambda>r. cell_of r ycn = CNum (of_int year))
                                  (state_crop_rows e scn ccn state crop (rows df))
                 in if filtered = []
                    then Inr (VDict
                      [(''error'', VStr (''No data found for '' @ state @ '', '' @ crop @
                                         '', year '' @ int_str year)),
                       (''state'', VStr state), (''crop'', VStr crop), (''year'', VInt year)], ds')
                    else
                      (case idxmax_row (groupby_sum dcn pcn filtered) of
                         None \<Rightarrow> Inl ValueError
                       | Some (d, p) \<Rightarrow>
                           Inr (VDict [(''state'', VStr state), (''crop'', VStr crop),
                                       (''year'', VInt year),
                                       (''district'', VStr (astype_str e d)),
                                       (''production'', VFloat p)], ds')))"

subsection \<open>\<open>_compute_district_crop_comparison\<close>\<close>

text \<open>
  \<open>all_years[-years:] if len(all_years) >= years else all_years\<close>, the recency window
  of this computation and of \<open>_compute_top_crops_state\<close>.
\<close>

definition recent_window :: "int \<Rightarrow> rat list \<Rightarrow> rat list" where
  "recent_window years all_years =
     (if int (length all_years) \<ge> years then py_tail years all_years else all_years)"

text \<open>
  \<open>groupby([district_col, year_col], as_index=False)[prod_col].sum()\<close> followed by
  \<open>sort_values([district_col, year_col])\<close>: one row per district and year that occur
  together, ordered by district, then year.
\<close>

definition pair_keys :: "string \<Rightarrow> string \<Rightarrow> row list \<Rightarrow> (cell \<times> cell) list" where
  "pair_keys k1 k2 rs =
     sort_key (\<lambda>(a, b). (cell_key a, cell_key b))
       (remdups (filter (\<lambda>(a, b). a \<noteq> CNull \<and> b \<noteq> CNull)
          (map (\<lambda>r. (cell_of r k1, cell_of r k2)) rs)))"

definition groupby2_sum ::
  "string \<Rightarrow> string \<Rightarrow> string \<Rightarrow> row list \<Rightarrow> ((cell \<times> cell) \<times> rat) list" where
  "groupby2_sum k1 k2 val rs =
     map (\<lambda>(a, b). ((a, b),
            series_sum (col_vals val (filter (\<lambda>r. cell_of r k1 = a \<and> cell_of r k2 = b) rs))))
       (pair_keys k1 k2 rs)"

definition sort_district_year :: "((cell \<times> cell) \<times> rat) list \<Rightarrow> ((cell \<times> cell) \<times> rat) list" where
  "sort_district_year gs = sort_key (\<lambda>((a, b), v). (cell_key a, cell_key b)) gs"

definition records2 :: "string \<Rightarrow> string \<Rightarrow> string \<Rightarrow> ((cell \<times> cell) \<times> rat) list \<Rightarrow> pyval" where
  "records2 k1 k2 val gs =
     VList (map (\<lambda>((a, b), v). VDict [(k1, cell_val a), (k2, cell_val b), (val, VFloat v)]) gs)"

definition compute_district_crop_comparison ::
  "env \<Rightarrow> data_store \<Rightarrow> string \<Rightarrow> string \<Rightarrow> int \<Rightarrow> exn + (pyval \<times> data_store)" where
  "compute_district_crop_comparison e ds0 state crop years =
     (case load_district_crop_production e ds0 of
        (df0, ds) \<Rightarrow>
          if df_empty df0
          then Inr (VDict [(''error'', VStr (not_available_msg e)),
                           (''hint'', VStr not_available_hint)], ds)
          else
            let state_col = find_col state_candidates (columns df0);
                district_col = find_col district_candidates (columns df0);
                crop_col = find_col crop_candidates (columns df0);
                prod_col = find_col prod_candidates6 (columns df0);
                year_col = find_col year_candidates (columns df0)
            in if \<not> all_truthy [state_col, district_col, crop_col, prod_col, year_col]
               then Inr (VDict [(''error'', VStr ''District dataset schema unexpected''),
                                (''columns'', VList (map VStr (columns df0)))], ds)
               else
                 let scn = or_else state_col []; dcn = or_else district_col [];
                     ccn = or_else crop_col []; pcn = or_else prod_col [];
                     ycn = or_else year_col [];
                     df = map_col (to_numeric e) ycn (map_col (to_numeric e) pcn df0);
                     ds' = put_back ds district_name df;
                     all_years = sorted_unique (col_vals ycn (rows df));
                     recent_years = recent_window years all_years;
                     filtered = filter (\<lambda>r. isin recent_years (cell_of r ycn))
                                  (state_crop_rows e scn ccn state crop (rows df))
                 in if filtered = []
                    then Inr (VDict
                      [(''error'', VStr (''No data found for '' @ state @ '', '' @ crop)),
                       (''state'', VStr state), (''crop'', VStr crop), (''years'', VInt years)], ds')
                    else
                      Inr (VDict
                        [(''state'', VStr state), (''crop'', VStr crop), (''years'', VInt years),
                         (''year_range'', VList (map (\<lambda>y. VInt (py_int y)) recent_years)),
                         (''districts'', records dcn pcn (sort_desc (groupby_sum dcn pcn filtered))),
                         (''district_by_year'',
                            records2 dcn ycn pcn
                              (sort_district_year (groupby2_sum dcn ycn pcn filtered)))], ds'))"

subsection \<open>\<open>_compute_top_crops_state\<close>\<close>

text \<open>
  \<open>series.unique()\<close> keeps the first occurrence of every value;
  \<open>re.search(r'(\d{4})', s)\<close> finds the first run of four digits.
\<close>

definition py_unique :: "'a list \<Rightarrow> 'a list" where
  "py_unique xs = rev (remdups (rev xs))"

definition digit_val :: "char \<Rightarrow> int" where
  "digit_val c = int (of_char c - 48)"

definition digits_val :: "string \<Rightarrow> int" where
  "digits_val s = foldl (\<lambda>acc c. 10 * acc + digit_val c) 0 s"

fun first_4_digits :: "string \<Rightarrow> int option" where
  "first_4_digits [] = None"
| "first_4_digits (c # cs) =
     (if length (c # cs) \<ge> 4 \<and> list_all is_digit (take 4 (c # cs))
      then Some (digits_val (take 4 (c # cs)))
      else first_4_digits cs)"

text \<open>The long-format branch, entered with the four resolved column names.\<close>

definition strip_crop :: "env \<Rightarrow> string \<Rightarrow> row \<Rightarrow> row" where
  "strip_crop e crop_col r =
     map (\<lambda>(k, v). if k = crop_col then (k, CStr (py_strip (astype_str e v))) else (k, v)) r"

definition sample_data :: "string \<Rightarrow> string \<Rightarrow> string \<Rightarrow> row list \<Rightarrow> pyval" where
  "sample_data crop_col prod_col year_col rs =
     VList (map (\<lambda>r. VDict [(crop_col, cell_val (cell_of r crop_col)),
                             (prod_col, cell_val (cell_of r prod_col)),
                             (year_col, cell_val (cell_of r year_col))]) (py_head 20 rs))"

definition top_crops_long ::
  "env \<Rightarrow> table \<Rightarrow> string \<Rightarrow> string \<Rightarrow> string \<Rightarrow> string \<Rightarrow> string \<Rightarrow> int \<Rightarrow> int \<Rightarrow> pyval" where
  "top_crops_long e df state_col crop_col prod_col year_col state top_n years =
     (let filtered1 = filter (\<lambda>r. astype_str_contains e state (cell_of r state_col)) (rows df) in
      if filtered1 = []
      then VDict [(''error'', VStr (''No data found for '' @ state)), (''state'', VStr state),
                  (''debug'', VDict
                     [(''total_rows'', VInt (int (length (rows df)))),
                      (''sample_state_values'',
                         VList (map VStr (take 5 (py_unique
                           (map (astype_str e) (col_vals state_col (rows df)))))))])]
      else
        let all_years = sorted_unique (col_vals year_col filtered1);
            recent_years = recent_window years all_years;
            filtered2 = filter (\<lambda>r. isin recent_years (cell_of r year_col)) filtered1
        in if filtered2 = []
           then VDict [(''error'', VStr (''No data found for '' @ state @ '' in recent '' @
                                        int_str years @ '' years'')),
                       (''state'', VStr state),
                       (''debug'', VDict [(''available_years'', VList (map VFloat all_years)),
                                          (''requested_years'', VList (map VFloat recent_years))])]
           else
             let filtered3 = filter (\<lambda>r. cell_of r crop_col \<noteq> CNull \<and> cell_of r prod_col \<noteq> CNull)
                               filtered2;
                 filtered = filter (\<lambda>r. cell_of r crop_col \<noteq> CStr [])
                              (map (strip_crop e crop_col) filtered3)
             in if filtered = []
                then VDict [(''error'', VStr (''No valid crop data found for '' @ state @
                                             '' in recent '' @ int_str years @ '' years'')),
                            (''state'', VStr state)]
                else
                  let grouped = groupby_sum crop_col prod_col filtered;
                      top = py_head top_n (sort_desc grouped);
                      result = [(''state'', VStr state), (''top_n'', VInt top_n),
                                (''years'', VInt years),
                                (''crops'', records crop_col prod_col top),
                                (''year_range'', VList (map (\<lambda>y. VInt (py_int y)) recent_years))]
                  in if int (length top) < top_n
                     then VDict (dict_set result ''debug_info'' (VDict
                            [(''total_rows_after_filter'', VInt (int (length filtered))),
                             (''unique_crops_found'', VInt (int (length grouped))),
                             (''crops_returned'', VInt (int (length top))),
                             (''sample_crops'',
                                VList (map cell_val (take 20 (py_unique (col_vals crop_col filtered))))),
                             (''sample_data'', sample_data crop_col prod_col year_col filtered)]))
                     else VDict result)"

text \<open>
  The wide-format branch (one row per year, crop names as columns), entered with the
  rows left after the state filter. A year value is a number or a string such as
  \<open>2014-15\<close>; a column counts as a crop when its dtype is numeric.
\<close>

fun year_of_raw :: "env \<Rightarrow> cell \<Rightarrow> int option" where
  "year_of_raw e (CNum x) = Some (py_int x)"
| "year_of_raw e (CStr s) =
     (case parse_float e s of Some x \<Rightarrow> Some (py_int x) | None \<Rightarrow> first_4_digits s)"
| "year_of_raw e CNull = None"

fun extract_year :: "cell \<Rightarrow> int option" where
  "extract_year (CNum x) = Some (py_int x)"
| "extract_year (CStr s) = first_4_digits s"
| "extract_year CNull = None"

definition top_crops_wide ::
  "env \<Rightarrow> table \<Rightarrow> string option \<Rightarrow> string \<Rightarrow> string \<Rightarrow> int \<Rightarrow> int \<Rightarrow> pyval" where
  "top_crops_wide e df state_col year_col state top_n years =
     (let years_raw = py_unique (filter (\<lambda>v. v \<noteq> CNull) (col_vals year_col (rows df)));
          years_numeric = List.map_filter (year_of_raw e) years_raw
      in if years_numeric = []
         then VDict [(''error'', VStr ''Could not parse years from dataset''),
                     (''year_column'', VStr year_col),
                     (''sample_values'', VList (map cell_val (take 5 years_raw)))]
         else
           let recent_years = py_tail years (sort years_numeric);
               df_recent = filter (\<lambda>r. case extract_year (cell_of r year_col) of
                                          None \<Rightarrow> False | Some y \<Rightarrow> y \<in> set recent_years) (rows df);
               excluded = [year_col, ''_year_numeric''] @
                            (if truthy state_col then [or_else state_col []] else []);
               crop_cols = filter (\<lambda>c. c \<notin> set excluded \<and> numeric_dtype (col_vals c (rows df)))
                             (columns df)
           in if crop_cols = []
              then VDict [(''error'', VStr ''No crop production columns found in wide format dataset''),
                          (''columns'', VList (map VStr (columns df)))]
              else
                let grouped = (if df_recent = [] then []
                               else map (\<lambda>c. (CStr c,
                                      series_sum (map (to_numeric e) (col_vals c df_recent))))
                                    (sort (remdups crop_cols)));
                    top = py_head top_n (sort_desc grouped)
                in VDict [(''state'', VStr state), (''top_n'', VInt top_n), (''years'', VInt years),
                          (''crops'', records ''Crop'' ''Production'' top),
                          (''year_range'', VList (map VInt (sort recent_years)))])"

text \<open>
  The table: the district table of the store, else the major-crops table of the
  store, else a fetch; \<open>alias\<close> is the store name the table is shared with. The
  production role falls back to the literal name \<open>Production\<close>. A path that reaches
  the end of the function body returns \<open>None\<close>.
\<close>

definition year_candidates4 :: "string list" where
  "year_candidates4 = [''Year'', ''YEAR'', ''year'', ''_year'']"

definition stored_nonempty :: "data_store \<Rightarrow> string \<Rightarrow> table option" where
  "stored_nonempty ds name =
     (case get_dataset ds name of
        Some d \<Rightarrow> if df_empty d then None else Some d
      | None \<Rightarrow> None)"

definition top_crops_state_table :: "env \<Rightarrow> data_store \<Rightarrow> exn + (table \<times> string option)" where
  "top_crops_state_table e ds =
     (case stored_nonempty ds district_name of
        Some d \<Rightarrow> Inr (d, Some district_name)
      | None \<Rightarrow>
          (case stored_nonempty ds major_crops_name of
             Some d \<Rightarrow> Inr (d, Some major_crops_name)
           | None \<Rightarrow>
               (case load_crop_production e of
                  Inl x \<Rightarrow> Inl x
                | Inr d \<Rightarrow> Inr (d, None))))"

definition compute_top_crops_state ::
  "env \<Rightarrow> data_store \<Rightarrow> string \<Rightarrow> int \<Rightarrow> int \<Rightarrow> exn + (pyval \<times> data_store)" where
  "compute_top_crops_state e ds state top_n years =
     (case top_crops_state_table e ds of
        Inl x \<Rightarrow> Inl x
      | Inr (df0, alias) \<Rightarrow>
          if df_empty df0
          then Inr (VDict [(''error'', VStr ''Crop production dataset empty''),
                           (''state'', VStr state)], ds)
          else
            let state_col = find_col state_candidates (columns df0);
                crop_col = find_col crop_candidates (columns df0);
                prod_col = or_else (find_col prod_candidates (columns df0)) ''Production'';
                year_col = find_col year_candidates4 (columns df0)
            in if truthy state_col \<and> truthy crop_col \<and> truthy year_col \<and> prod_col \<noteq> []
               then
                 if prod_col \<notin> set (columns df0) then Inl (KeyError prod_col)
                 else
                   let scn = or_else state_col []; ccn = or_else crop_col [];
                       ycn = or_else year_col [];
                       df = map_col (to_numeric e) ycn (map_col (to_numeric e) prod_col df0);
                       ds' = (case alias of None \<Rightarrow> ds | Some name \<Rightarrow> put_back ds name df)
                   in Inr (top_crops_long e df scn ccn prod_col ycn state top_n years, ds')
               else if truthy state_col \<and> truthy crop_col \<and> prod_col \<noteq> []
               then Inr (VDict
                 [(''error'', VStr (''Could not process dataset for '' @ state @
                                    ''. Dataset format may be unexpected.'')),
                  (''state'', VStr state),
                  (''available_columns'', VList (map VStr (columns df0))),
                  (''found_columns'', VDict
                     [(''state'', opt_val state_col), (''crop'', opt_val crop_col),
                      (''production'', VStr prod_col), (''year'', opt_val year_col)])], ds)
               else
                 let df = (if truthy state_col
                           then df0\<lparr>rows := filter (\<lambda>r. astype_str_contains e state
                                                  (cell_of r (or_else state_col []))) (rows df0)\<rparr>
                           else df0)
                 in if truthy state_col \<and> df_empty df
                    then Inr (VDict [(''error'', VStr (''No data found for '' @ state @
                                                       '' in wide format dataset'')),
                                     (''state'', VStr state)], ds)
                    else if ''_year'' \<in> set (columns df) \<or>
                            (truthy year_col \<and> startswith (or_else year_col []) ''_'')
                    then
                      let year_col2 = (if ''_year'' \<in> set (columns df) then Some ''_year''
                                       else find_col [''_year'', ''Year'', ''YEAR'', ''year''] (columns df))
                      in if truthy year_col2 \<and> or_else year_col2 [] \<in> set (columns df)
                         then Inr (top_crops_wide e df state_col (or_else year_col2 [])
                                     state top_n years, ds)
                         else Inr (VNone, ds)
                    else Inr (VNone, ds))"

section \<open>\<open>QueryExecutor.execute\<close>\<close>

text \<open>
  Sequencing of results that may be exceptions: the rest runs only when the first part
  returned.
\<close>

definition bind :: "exn + 'a \<Rightarrow> ('a \<Rightarrow> exn + 'b) \<Rightarrow> exn + 'b" where
  "bind m f = (case m of Inl x \<Rightarrow> Inl x | Inr a \<Rightarrow> f a)"

text \<open>
  \<open>step["k"]\<close> raises KeyError when the key is absent; the value found is passed on
  to the computation as it is.
\<close>

definition subscript :: "pydict \<Rightarrow> string \<Rightarrow> exn + pyval" where
  "subscript d k = (case dict_get d k of None \<Rightarrow> Inl (KeyError k) | Some v \<Rightarrow> Inr v)"

text \<open>Storing a computation's outcome under its key, or passing its exception on.\<close>

definition record_under ::
  "string \<Rightarrow> pydict \<Rightarrow> exn + (pyval \<times> data_store) \<Rightarrow> exn + (pydict \<times> data_store)" where
  "record_under key results outcome =
     (case outcome of
        Inl x \<Rightarrow> Inl x
      | Inr (r, ds') \<Rightarrow> Inr (dict_set results key r, ds'))"

definition with_store :: "data_store \<Rightarrow> exn + pyval \<Rightarrow> exn + (pyval \<times> data_store)" where
  "with_store ds outcome = (case outcome of Inl x \<Rightarrow> Inl x | Inr r \<Rightarrow> Inr (r, ds))"

text \<open>
  The calls of the six computations with the values read from the step. The
  computations above are modelled for arguments of the types the planner passes, a
  \<open>str\<close> for a name and an \<open>int\<close> for a count or a year. With an argument of any
  other type the same code runs under Python's dynamic typing: it may return before
  the argument is used or raise where it is used. That outcome is not modelled; it
  is the parameter \<open>untyped_call\<close> of the environment.
\<close>

fun str_arg :: "pyval \<Rightarrow> string option" where
  "str_arg (VStr s) = Some s"
| "str_arg _ = None"

fun int_arg :: "pyval \<Rightarrow> int option" where
  "int_arg (VInt i) = Some i"
| "int_arg _ = None"

definition call_rainfall_compare ::
  "env \<Rightarrow> data_store \<Rightarrow> pyval \<Rightarrow> pyval \<Rightarrow> pyval \<Rightarrow> exn + (pyval \<times> data_store)" where
  "call_rainfall_compare e ds state1 state2 years =
     (case (str_arg state1, str_arg state2, int_arg years) of
        (Some s1, Some s2, Some n) \<Rightarrow> with_store ds (compute_rainfall_compare e s1 s2 n)
      | _ \<Rightarrow> untyped_call e ''_compute_rainfall_compare'' [state1, state2, years] ds)"

definition call_top_crops ::
  "env \<Rightarrow> data_store \<Rightarrow> pyval \<Rightarrow> pyval \<Rightarrow> pyval \<Rightarrow> pyval \<Rightarrow> exn + (pyval \<times> data_store)" where
  "call_top_crops e ds state1 state2 top_m crop_type =
     (case (str_arg state1, str_arg state2, int_arg top_m, str_arg crop_type) of
        (Some s1, Some s2, Some m, Some ct) \<Rightarrow> with_store ds (compute_top_crops e s1 s2 m ct)
      | _ \<Rightarrow> untyped_call e ''_compute_top_crops'' [state1, state2, top_m, crop_type] ds)"

definition call_district_crop_extrema ::
  "env \<Rightarrow> data_store \<Rightarrow> pyval \<Rightarrow> pyval \<Rightarrow> pyval \<Rightarrow> pyval \<Rightarrow> exn + (pyval \<times> data_store)" where
  "call_district_crop_extrema e ds state_max crop_max state_min crop_min =
     (case (str_arg state_max, str_arg crop_max, str_arg state_min, str_arg crop_min) of
        (Some s1, Some c1, Some s2, Some c2) \<Rightarrow> compute_district_crop_extrema e ds s1 c1 s2 c2
      | _ \<Rightarrow> untyped_call e ''_compute_district_crop_extrema''
               [state_max, crop_max, state_min, crop_min] ds)"

definition call_top_crops_state ::
  "env \<Rightarrow> data_store \<Rightarrow> pyval \<Rightarrow> pyval \<Rightarrow> pyval \<Rightarrow> exn + (pyval \<times> data_store)" where
  "call_top_crops_state e ds state top_n years =
     (case (str_arg state, int_arg top_n, int_arg years) of
        (Some s, Some n, Some y) \<Rightarrow> compute_top_crops_state e ds s n y
      | _ \<Rightarrow> untyped_call e ''_compute_top_crops_state'' [state, top_n, years] ds)"

definition call_district_highest_crop_year ::
  "env \<Rightarrow> data_store \<Rightarrow> pyval \<Rightarrow> pyval \<Rightarrow> pyval \<Rightarrow> exn + (pyval \<times> data_store)" where
  "call_district_highest_crop_year e ds state crop year =
     (case (str_arg state, str_arg crop, int_arg year) of
        (Some s, Some c, Some y) \<Rightarrow> compute_district_highest_crop_year e ds s c y
      | _ \<Rightarrow> untyped_call e ''_compute_district_highest_crop_year'' [state, crop, year] ds)"

definition call_district_crop_comparison ::
  "env \<Rightarrow> data_store \<Rightarrow> pyval \<Rightarrow> pyval \<Rightarrow> pyval \<Rightarrow> exn + (pyval \<times> data_store)" where
  "call_district_crop_comparison e ds state crop years =
     (case (str_arg state, str_arg crop, int_arg years) of
        (Some s, Some c, Some y) \<Rightarrow> compute_district_crop_comparison e ds s c y
      | _ \<Rightarrow> untyped_call e ''_compute_district_crop_comparison'' [state, crop, years] ds)"

text \<open>
  The body of the loop for a step that is a dict, by the value of \<open>step.get("type")\<close>.
  The source tests the six types one after the other; a type is at most one of them.
  Each branch reads the step's arguments left to right (a missing one raises
  KeyError), calls the computation with them and stores what it returned under the
  computation's key. There is no \<open>try\<close> around any of it.
\<close>

definition run_dict_step ::
  "env \<Rightarrow> pydict \<Rightarrow> pydict \<times> data_store \<Rightarrow> exn + (pydict \<times> data_store)" where
  "run_dict_step e step acc =
     (case acc of (results, ds) \<Rightarrow>
      let ty = dict_get step ''type'' in
      if ty = Some (VStr ''compute_rainfall_compare'') then
        bind (subscript step ''state1'') (\<lambda>state1. bind (subscript step ''state2'') (\<lambda>state2.
        bind (subscript step ''years'') (\<lambda>years.
        record_under ''rainfall_compare'' results
          (call_rainfall_compare e ds state1 state2 years))))
      else if ty = Some (VStr ''compute_top_crops'') then
        bind (subscript step ''state1'') (\<lambda>state1. bind (subscript step ''state2'') (\<lambda>state2.
        bind (subscript step ''top_m'') (\<lambda>top_m. bind (subscript step ''crop_type'') (\<lambda>crop_type.
        record_under ''top_crops'' results
          (call_top_crops e ds state1 state2 top_m crop_type)))))
      else if ty = Some (VStr ''compute_district_crop_extrema'') then
        bind (subscript step ''state_max'') (\<lambda>state_max. bind (subscript step ''crop_max'') (\<lambda>crop_max.
        bind (subscript step ''state_min'') (\<lambda>state_min. bind (subscript step ''crop_min'') (\<lambda>crop_min.
        record_under ''district_crop_extrema'' results
          (call_district_crop_extrema e ds state_max crop_max state_min crop_min)))))
      else if ty = Some (VStr ''compute_top_crops_state'') then
        bind (subscript step ''state'') (\<lambda>state. bind (subscript step ''top_n'') (\<lambda>top_n.
        bind (subscript step ''years'') (\<lambda>years.
        record_under ''top_crops_state'' results
          (call_top_crops_state e ds state top_n years))))
      else if ty = Some (VStr ''compute_district_highest_crop_year'') then
        bind (subscript step ''state'') (\<lambda>state. bind (subscript step ''crop'') (\<lambda>crop.
        bind (subscript step ''year'') (\<lambda>year.
        record_under ''district_highest_crop_year'' results
          (call_district_highest_crop_year e ds state crop year))))
      else if ty = Some (VStr ''compute_district_crop_comparison'') then
        bind (subscript step ''state'') (\<lambda>state. bind (subscript step ''crop'') (\<lambda>crop.
        bind (subscript step ''years'') (\<lambda>years.
        record_under ''district_crop_comparison'' results
          (call_district_crop_comparison e ds state crop years))))
      else Inr (results, ds))"

text \<open>
  For a list of argument keys: the first one the step lacks, and the value of a key
  the step has.
\<close>

definition first_missing :: "pydict \<Rightarrow> string list \<Rightarrow> string option" where
  "first_missing step ks = find (\<lambda>k. dict_get step k = None) ks"

definition arg :: "pydict \<Rightarrow> string \<Rightarrow> pyval" where
  "arg step k = (case dict_get step k of Some v \<Rightarrow> v | None \<Rightarrow> VNone)"

text \<open>
  One iteration: a \<open>str\<close> step is skipped (\<open>continue\<close>); a dict step runs as above; any
  other value has no \<open>get\<close> (AttributeError).
\<close>

fun run_step :: "env \<Rightarrow> pyval \<Rightarrow> pydict \<times> data_store \<Rightarrow> exn + (pydict \<times> data_store)" where
  "run_step e (VStr s) acc = Inr acc"
| "run_step e (VDict step) acc = run_dict_step e step acc"
| "run_step e _ acc = Inl AttributeError"

fun run_steps :: "env \<Rightarrow> pyval list \<Rightarrow> pydict \<times> data_store \<Rightarrow> exn + (pydict \<times> data_store)" where
  "run_steps e [] acc = Inr acc"
| "run_steps e (step # steps) acc = bind (run_step e step acc) (run_steps e steps)"

text \<open>
  \<open>plan.get("steps", [])\<close> and what iterating over it yields: the elements of a list,
  the characters of a string, the keys of a dict; other values are not iterable.
\<close>

definition plan_steps :: "pydict \<Rightarrow> exn + pyval list" where
  "plan_steps plan =
     (case dict_get plan ''steps'' of
        None \<Rightarrow> Inr []
      | Some (VList steps) \<Rightarrow> Inr steps
      | Some (VStr s) \<Rightarrow> Inr (map (\<lambda>c. VStr [c]) s)
      | Some (VDict d) \<Rightarrow> Inr (map (\<lambda>(k, v). VStr k) d)
      | Some _ \<Rightarrow> Inl TypeError)"

definition execute :: "env \<Rightarrow> data_store \<Rightarrow> pydict \<Rightarrow> exn + (pydict \<times> data_store)" where
  "execute e ds plan =
     bind (plan_steps plan) (\<lambda>steps.
     bind (run_steps e steps ([], ds)) (\<lambda>(results, ds').
       Inr ([(''plan'', VDict plan), (''answer_data'', VDict results)], ds')))"

definition answer_data :: "pydict \<Rightarrow> pyval option" where
  "answer_data response = dict_get response ''answer_data''"

section \<open>\<open>QueryPlanner.plan_and_execute\<close>\<close>

text \<open>
  The planner builds the plan dict for the intent and hands it to the executor.
  \<open>make_plan\<close> is the plan it builds: \<open>parsed["k"]\<close> raises KeyError for a missing
  argument; an intent that is none of the six gets the single placeholder step
  \<open>"demo-step"\<close>.
\<close>

definition intent_of :: "pydict \<Rightarrow> pyval" where
  "intent_of parsed = (case dict_get parsed ''intent'' of None \<Rightarrow> VNone | Some v \<Rightarrow> v)"

fun copy_args :: "pydict \<Rightarrow> string list \<Rightarrow> exn + pydict" where
  "copy_args parsed [] = Inr []"
| "copy_args parsed (k # ks) =
     bind (subscript parsed k) (\<lambda>v. bind (copy_args parsed ks) (\<lambda>rest. Inr ((k, v) # rest)))"

definition make_step :: "pydict \<Rightarrow> string \<Rightarrow> string list \<Rightarrow> exn + pyval" where
  "make_step parsed ty ks =
     bind (copy_args parsed ks) (\<lambda>args. Inr (VDict ((''type'', VStr ty) # args)))"

definition plan_with :: "pydict \<Rightarrow> pyval list \<Rightarrow> pydict" where
  "plan_with parsed steps = [(''intent'', intent_of parsed), (''steps'', VList steps)]"

definition make_plan :: "pydict \<Rightarrow> exn + pydict" where
  "make_plan parsed =
     (let intent = intent_of parsed in
      if intent = VStr ''rainfall_vs_top_crops'' then
        bind (make_step parsed ''compute_rainfall_compare'' [''state1'', ''state2'', ''years'']) (\<lambda>s1.
        bind (make_step parsed ''compute_top_crops'' [''state1'', ''state2'', ''top_m'', ''crop_type''])
          (\<lambda>s2. Inr (plan_with parsed [s1, s2])))
      else if intent = VStr ''rainfall_compare'' then
        bind (make_step parsed ''compute_rainfall_compare'' [''state1'', ''state2'', ''years''])
          (\<lambda>s1. Inr (plan_with parsed [s1]))
      else if intent = VStr ''district_crop_extrema_compare'' then
        bind (make_step parsed ''compute_district_crop_extrema''
                [''state_max'', ''crop_max'', ''state_min'', ''crop_min''])
          (\<lambda>s1. Inr (plan_with parsed [s1]))
      else if intent = VStr ''top_crops_state'' then
        bind (make_step parsed ''compute_top_crops_state'' [''state'', ''top_n'', ''years''])
          (\<lambda>s1. Inr (plan_with parsed [s1]))
      else if intent = VStr ''district_highest_crop_year'' then
        bind (make_step parsed ''compute_district_highest_crop_year'' [''state'', ''crop'', ''year''])
          (\<lambda>s1. Inr (plan_with parsed [s1]))
      else if intent = VStr ''district_crop_comparison'' then
        bind (make_step parsed ''compute_district_crop_comparison'' [''state'', ''crop'', ''years''])
          (\<lambda>s1. Inr (plan_with parsed [s1]))
      else Inr (plan_with parsed [VStr ''demo-step'']))"

definition plan_and_execute :: "env \<Rightarrow> data_store \<Rightarrow> pydict \<Rightarrow> exn + (pydict \<times> data_store)" where
  "plan_and_execute e ds parsed = bind (make_plan parsed) (execute e ds)"

text \<open>
  The intents the planner recognises, each with the argument keys it reads from the
  parsed dict (the keys the parser stores for that intent).
\<close>

definition intent_args :: "string \<Rightarrow> string list option" where
  "intent_args i =
     (if i = ''rainfall_vs_top_crops'' then Some [''state1'', ''state2'', ''years'', ''top_m'', ''crop_type'']
      else if i = ''rainfall_compare'' then Some [''state1'', ''state2'', ''years'']
      else if i = ''district_crop_extrema_compare''
        then Some [''state_max'', ''crop_max'', ''state_min'', ''crop_min'']
      else if i = ''top_crops_state'' then Some [''state'', ''top_n'', ''years'']
      else if i = ''district_highest_crop_year'' then Some [''state'', ''crop'', ''year'']
      else if i = ''district_crop_comparison'' then Some [''state'', ''crop'', ''years'']
      else None)"

definition has_args :: "pydict \<Rightarrow> string list \<Rightarrow> bool" where
  "has_args parsed ks = list_all (\<lambda>k. dict_get parsed k \<noteq> None) ks"

text \<open>The dict \<open>parse_query\<close> returns for a question it does not recognise.\<close>

definition unknown_intent :: "string \<Rightarrow> pyval \<Rightarrow> pydict" where
  "unknown_intent question available =
     [(''intent'', VStr ''unknown''),
      (''question'', VStr question),
      (''available_datasets'', available),
      (''error'', VStr ''Query not recognized. Please use one of the supported query formats.''),
      (''suggestions'', VList
         [VStr ''Compare rainfall in [State1] and [State2] for the last N years'',
          VStr ''List the top N crops produced in [State] during the last M years'',
          VStr ''Which district in [State] had the highest [Crop] production in [Year]'',
          VStr ''Compare [Crop] production across all districts in [State] for the last N years''])]"

section \<open>\<open>QueryParser\<close>\<close>

text \<open>
  The regular-expression searches of \<open>_parse_with_keywords\<close>, each as the function
  that finds the leftmost match. \<open>\d\<close>, \<open>\s\<close> and \<open>\w\<close> are the ASCII digits, white
  space and word characters; \<open>\b\<close> holds before a word character that follows a
  non-word character or the start, and after one that precedes a non-word character
  or the end.

  \<open>re.search(r'(\d+)\s*years?', s)\<close>: a run of digits, optional white space, the word
  \<open>year\<close>; the result is \<open>int\<close> of the run.
\<close>

definition is_word_char :: "char \<Rightarrow> bool" where
  "is_word_char c = (is_alpha c \<or> is_digit c \<or> c = CHR ''_'')"

fun search_num_years :: "string \<Rightarrow> int option" where
  "search_num_years [] = None"
| "search_num_years (c # cs) =
     (if is_digit c \<and> startswith (dropWhile is_space (dropWhile is_digit (c # cs))) ''year''
      then Some (digits_val (takeWhile is_digit (c # cs)))
      else search_num_years cs)"

text \<open>\<open>re.search(r'top\s+(\d+)', s)\<close>\<close>

fun search_top_n :: "string \<Rightarrow> int option" where
  "search_top_n [] = None"
| "search_top_n (c # cs) =
     (let r = dropWhile is_space (drop 3 (c # cs)) in
      if startswith (c # cs) ''top'' \<and> r \<noteq> drop 3 (c # cs) \<and>
         (case r of [] \<Rightarrow> False | d # ds \<Rightarrow> is_digit d)
      then Some (digits_val (takeWhile is_digit r))
      else search_top_n cs)"

text \<open>
  \<open>re.search(r'\b' + re.escape(w) + r'\b', s)\<close> for a name \<open>w\<close> made of letters and
  spaces: the start position of the first occurrence of \<open>w\<close> as a whole word.
\<close>

fun search_word_from :: "string \<Rightarrow> bool \<Rightarrow> nat \<Rightarrow> string \<Rightarrow> nat option" where
  "search_word_from w prev i [] = None"
| "search_word_from w prev i (c # cs) =
     (if \<not> prev \<and> startswith (c # cs) w \<and>
         (case drop (length w) (c # cs) of [] \<Rightarrow> True | d # ds \<Rightarrow> \<not> is_word_char d)
      then Some i
      else search_word_from w (is_word_char c) (Suc i) cs)"

definition search_word :: "string \<Rightarrow> string \<Rightarrow> nat option" where
  "search_word w s = search_word_from w False 0 s"

text \<open>\<open>re.search(r'\b(20\d{2}|19\d{2})\b', s)\<close>\<close>

definition year_at :: "string \<Rightarrow> bool" where
  "year_at s =
     ((startswith s ''20'' \<or> startswith s ''19'') \<and>
      (case drop 2 s of
         d1 # d2 # rest \<Rightarrow>
           is_digit d1 \<and> is_digit d2 \<and> (case rest of [] \<Rightarrow> True | d # ds \<Rightarrow> \<not> is_word_char d)
       | _ \<Rightarrow> False))"

fun search_year_from :: "bool \<Rightarrow> string \<Rightarrow> int option" where
  "search_year_from prev [] = None"
| "search_year_from prev (c # cs) =
     (if \<not> prev \<and> year_at (c # cs) then Some (digits_val (take 4 (c # cs)))
      else search_year_from (is_word_char c) cs)"

definition search_year :: "string \<Rightarrow> int option" where
  "search_year s = search_year_from False s"

text \<open>The name lists of the three keyword branches.\<close>

definition rainfall_states :: "string list" where
  "rainfall_states =
     [''karnataka'', ''tamil nadu'', ''maharashtra'', ''punjab'', ''gujarat'',
      ''uttar pradesh'', ''bihar'', ''west bengal'', ''odisha'', ''rajasthan'']"

definition top_crops_states :: "string list" where
  "top_crops_states = [''karnataka'', ''tamil nadu'', ''maharashtra'', ''punjab'', ''gujarat'']"

definition district_states :: "string list" where
  "district_states =
     rainfall_states @
     [''andhra pradesh'', ''telangana'', ''kerala'', ''haryana'', ''himachal pradesh'',
      ''madhya pradesh'', ''assam'', ''jharkhand'', ''chhattisgarh'']"

definition crops :: "string list" where
  "crops =
     [''rice'', ''wheat'', ''sugarcane'', ''cotton'', ''maize'', ''jowar'', ''bajra'',
      ''millet'', ''pulses'', ''oilseed'', ''groundnut'', ''soybean'', ''barley'', ''mustard'',
      ''ragi'', ''tur'', ''gram'', ''moong'', ''urad'', ''arhar'']"

text \<open>
  The positions of the names found as whole words, in the order of the name list
  (\<open>positions\<close>), and the choice of the state: the first state of the list that
  starts after the earliest crop, else the earliest state.
\<close>

definition positions :: "string list \<Rightarrow> string \<Rightarrow> (nat \<times> string) list" where
  "positions names s =
     List.map_filter (\<lambda>w. case search_word w s of None \<Rightarrow> None | Some i \<Rightarrow> Some (i, w)) names"

definition earliest :: "(nat \<times> string) list \<Rightarrow> (nat \<times> string) option" where
  "earliest ps = (case sort ps of [] \<Rightarrow> None | p # rest \<Rightarrow> Some p)"

definition choose_state :: "(nat \<times> string) list \<Rightarrow> (nat \<times> string) list \<Rightarrow> string option" where
  "choose_state state_positions crop_positions =
     (case earliest crop_positions of
        Some (crop_start, c) \<Rightarrow>
          (case find (\<lambda>(pos, s). pos > crop_start) state_positions of
             Some (pos, s) \<Rightarrow> Some s
           | None \<Rightarrow> map_option snd (earliest state_positions))
      | None \<Rightarrow> map_option snd (earliest state_positions))"

text \<open>
  The three branches of \<open>_parse_with_keywords\<close>. The rainfall and the top-crops
  branch return a dict when they find their states and fall through otherwise. The
  district branch builds its two dicts with \<open>normalize_state_name(state)\<close>; that
  function is local to \<open>parse_query\<close> and not defined in \<open>_parse_with_keywords\<close> or
  in the module, so the call raises NameError. The last statement raises
  \<open>Exception("Could not parse query")\<close>.
\<close>

definition rainfall_branch :: "string \<Rightarrow> pydict option" where
  "rainfall_branch question_lower =
     (if py_in ''rainfall'' question_lower \<or> py_in ''rain'' question_lower \<or>
         py_in ''precipitation'' question_lower
      then (case filter (\<lambda>state. py_in state question_lower) rainfall_states of
              s1 # s2 # rest \<Rightarrow>
                Some [(''intent'', VStr ''rainfall_compare''), (''state1'', VStr s1),
                      (''state2'', VStr s2),
                      (''years'', VInt (case search_num_years question_lower of
                                         Some n \<Rightarrow> n | None \<Rightarrow> 5))]
            | _ \<Rightarrow> None)
      else None)"

definition top_crops_branch :: "string \<Rightarrow> pydict option" where
  "top_crops_branch question_lower =
     (if py_in ''top'' question_lower \<and> py_in ''crop'' question_lower
      then (case find (\<lambda>s. py_in s question_lower) top_crops_states of
              Some state \<Rightarrow>
                Some [(''intent'', VStr ''top_crops_state''), (''state'', VStr state),
                      (''top_n'', VInt (case search_top_n question_lower of
                                         Some n \<Rightarrow> n | None \<Rightarrow> 10)),
                      (''years'', VInt (case search_num_years question_lower of
                                         Some n \<Rightarrow> n | None \<Rightarrow> 5))]
            | None \<Rightarrow> None)
      else None)"

definition district_branch :: "string \<Rightarrow> string \<Rightarrow> exn option" where
  "district_branch question question_lower =
     (if py_in ''district'' question_lower \<and>
         (py_in ''highest'' question_lower \<or> py_in ''had'' question_lower)
      then
        let year = search_year question;
            crop_positions = positions crops question_lower;
            crop = map_option snd (earliest crop_positions);
            state = choose_state (positions district_states question_lower) crop_positions
        in if state \<noteq> None \<and> crop \<noteq> None \<and> year \<noteq> None
           then Some (NameError ''normalize_state_name'')
           else if state \<noteq> None \<and> crop \<noteq> None
           then Some (NameError ''normalize_state_name'')
           else None
      else None)"

definition parse_with_keywords :: "string \<Rightarrow> pyval \<Rightarrow> exn + pydict" where
  "parse_with_keywords question available =
     (let question_lower = lower_str question in
      case rainfall_branch question_lower of
        Some d \<Rightarrow> Inr d
      | None \<Rightarrow>
          (case top_crops_branch question_lower of
             Some d \<Rightarrow> Inr d
           | None \<Rightarrow>
               (case district_branch question question_lower of
                  Some x \<Rightarrow> Inl x
                | None \<Rightarrow> Inl (Exception ''Could not parse query''))))"

text \<open>
  \<open>parse_query\<close>. The cascade of regular-expression rules that comes first is the
  parameter \<open>pattern_rules\<close>: the dict of the first rule that matches the question,
  or \<open>None\<close> when no rule matches. Then the keyword extractor runs inside
  \<open>try: ... except Exception\<close>, and any exception gives the unknown intent.
\<close>

definition parse_query :: "(string \<Rightarrow> pydict option) \<Rightarrow> string \<Rightarrow> pyval \<Rightarrow> pydict" where
  "parse_query pattern_rules question available =
     (case pattern_rules question of
        Some d \<Rightarrow> d
      | None \<Rightarrow>
          (case parse_with_keywords question available of
             Inr d \<Rightarrow> d
           | Inl x \<Rightarrow> unknown_intent question available))"

definition no_rule :: "string \<Rightarrow> pydict option" where
  "no_rule question = None"

definition district_question :: string where
  "district_question = ''Tell me the district that had the most rice in Karnataka in 2020''"

definition district_question_no_year :: string where
  "district_question_no_year = ''Tell me the district that had the most rice in Karnataka''"

section \<open>Example environments\<close>

text \<open>
  Concrete parameters for the closed examples: numeric strings are runs of decimal
  digits, the network answers every request with the given table, the store is empty
  or holds one table. No example calls a computation with arguments of other types,
  and the outcome of such a call is left open.
\<close>

definition parse_digits :: "string \<Rightarrow> rat option" where
  "parse_digits s = (if s \<noteq> [] \<and> list_all is_digit s then Some (of_int (digits_val s)) else None)"

definition example_env :: "table \<Rightarrow> env" where
  "example_env t =
     \<lparr>parse_num = parse_digits, parse_float = parse_digits, num_str = (\<lambda>x. ''number''),
      rainfall_resource_id = Some ''rainfall'',
      crop_production_resource_id = Some ''crops'',
      district_crop_production_resource_id = None,
      data_gov_in_api_key = Some ''key'',
      http_fetch = (\<lambda>rid use_ckan. Inr t),
      discover_district_crop_production_resource_id = Inr None,
      untyped_call = undefined\<rparr>"

definition empty_store :: data_store where
  "empty_store = \<lparr>agriculture_data = Map.empty, climate_data = Map.empty, metadata = Map.empty\<rparr>"

definition store_with :: "string \<Rightarrow> table \<Rightarrow> data_store" where
  "store_with name t = add_dataset empty_store ''agriculture'' name t []"

text \<open>
  The step types \<open>execute\<close> tests for, and the steps it passes over: a string, or a
  dict whose \<open>type\<close> is none of the six (or absent).
\<close>

definition recognised_types :: "string list" where
  "recognised_types =
     [''compute_rainfall_compare'', ''compute_top_crops'', ''compute_district_crop_extrema'',
      ''compute_top_crops_state'', ''compute_district_highest_crop_year'',
      ''compute_district_crop_comparison'']"

fun skipped :: "pyval \<Rightarrow> bool" where
  "skipped (VStr s) = True"
| "skipped (VDict d) = list_all (\<lambda>t. dict_get d ''type'' \<noteq> Some (VStr t)) recognised_types"
| "skipped _ = False"

text \<open>The values that are neither a string nor a dict: they have no \<open>get\<close>.\<close>

fun other_step :: "pyval \<Rightarrow> bool" where
  "other_step (VStr s) = False"
| "other_step (VDict d) = False"
| "other_step _ = True"

text \<open>An environment whose API key is the placeholder: every fetch raises RuntimeError.\<close>

definition no_key_env :: env where
  "no_key_env = (example_env empty_table)\<lparr>data_gov_in_api_key := Some ''YOUR_KEY_HERE''\<rparr>"

text \<open>A table with one column that no role resolves to.\<close>

definition foo_table :: table where
  "foo_table = \<lparr>columns = [''foo''], rows = [[(''foo'', CStr ''x'')]]\<rparr>"

definition rainfall_step :: "string \<Rightarrow> string \<Rightarrow> int \<Rightarrow> pyval" where
  "rainfall_step s1 s2 n =
     VDict [(''type'', VStr ''compute_rainfall_compare''), (''state1'', VStr s1),
            (''state2'', VStr s2), (''years'', VInt n)]"

definition top_crops_step :: "string \<Rightarrow> string \<Rightarrow> int \<Rightarrow> string \<Rightarrow> pyval" where
  "top_crops_step s1 s2 m ct =
     VDict [(''type'', VStr ''compute_top_crops''), (''state1'', VStr s1),
            (''state2'', VStr s2), (''top_m'', VInt m), (''crop_type'', VStr ct)]"

definition extrema_step :: "string \<Rightarrow> string \<Rightarrow> string \<Rightarrow> string \<Rightarrow> pyval" where
  "extrema_step s1 c1 s2 c2 =
     VDict [(''type'', VStr ''compute_district_crop_extrema''), (''state_max'', VStr s1),
            (''crop_max'', VStr c1), (''state_min'', VStr s2), (''crop_min'', VStr c2)]"

definition top_crops_state_step :: "string \<Rightarrow> int \<Rightarrow> int \<Rightarrow> pyval" where
  "top_crops_state_step st n y =
     VDict [(''type'', VStr ''compute_top_crops_state''), (''state'', VStr st),
            (''top_n'', VInt n), (''years'', VInt y)]"

definition highest_step :: "string \<Rightarrow> string \<Rightarrow> int \<Rightarrow> pyval" where
  "highest_step st c y =
     VDict [(''type'', VStr ''compute_district_highest_crop_year''), (''state'', VStr st),
            (''crop'', VStr c), (''year'', VInt y)]"

definition comparison_step :: "string \<Rightarrow> string \<Rightarrow> int \<Rightarrow> pyval" where
  "comparison_step st c y =
     VDict [(''type'', VStr ''compute_district_crop_comparison''), (''state'', VStr st),
            (''crop'', VStr c), (''years'', VInt y)]"

text \<open>
  Example tables for \<open>_compute_top_crops_state\<close>: a table with state, crop and year
  columns but no production column, and the long-format Punjab table of the
  specification (two years, wheat and rice).
\<close>

definition no_production_table :: table where
  "no_production_table =
     \<lparr>columns = [''State'', ''Crop'', ''Year''],
      rows = [[(''State'', CStr ''Punjab''), (''Crop'', CStr ''Wheat''), (''Year'', CNum 2020)]]\<rparr>"

definition crop_row :: "string \<Rightarrow> string \<Rightarrow> rat \<Rightarrow> rat \<Rightarrow> row" where
  "crop_row st c y p =
     [(''State'', CStr st), (''Crop'', CStr c), (''Year'', CNum y), (''Production'', CNum p)]"

definition punjab_table :: table where
  "punjab_table =
     \<lparr>columns = [''State'', ''Crop'', ''Year'', ''Production''],
      rows = [crop_row ''Punjab'' ''Wheat'' 2019 100, crop_row ''Punjab'' ''Rice'' 2019 50,
              crop_row ''Punjab'' ''Wheat'' 2020 120, crop_row ''Punjab'' ''Rice'' 2020 40]\<rparr>"

text \<open>
  The rainfall table of the specification's example: Karnataka and Kerala, one row per
  year from 2018 to 2022. And a district table: wheat in two districts of Punjab for
  2019 and 2020, and one later row (2021) of another state.
\<close>

definition rain_row :: "string \<Rightarrow> rat \<Rightarrow> rat \<Rightarrow> row" where
  "rain_row st y mm = [(''STATE'', CStr st), (''YEAR'', CNum y), (''ANNUAL'', CNum mm)]"

definition rainfall_table :: table where
  "rainfall_table =
     \<lparr>columns = [''STATE'', ''YEAR'', ''ANNUAL''],
      rows = [rain_row ''Karnataka'' 2018 1000, rain_row ''Kerala'' 2018 3000,
              rain_row ''Karnataka'' 2019 1100, rain_row ''Kerala'' 2019 3100,
              rain_row ''Karnataka'' 2020 1200, rain_row ''Kerala'' 2020 2900,
              rain_row ''Karnataka'' 2021 900, rain_row ''Kerala'' 2021 3000,
              rain_row ''Karnataka'' 2022 1500, rain_row ''Kerala'' 2022 2800]\<rparr>"

definition district_row :: "string \<Rightarrow> string \<Rightarrow> string \<Rightarrow> rat \<Rightarrow> rat \<Rightarrow> row" where
  "district_row st d c y p =
     [(''State_Name'', CStr st), (''District_Name'', CStr d), (''Crop'', CStr c),
      (''Year'', CNum y), (''Production'', CNum p)]"

definition district_table :: table where
  "district_table =
     \<lparr>columns = [''State_Name'', ''District_Name'', ''Crop'', ''Year'', ''Production''],
      rows = [district_row ''Punjab'' ''Amritsar'' ''Wheat'' 2019 80,
              district_row ''Punjab'' ''Ludhiana'' ''Wheat'' 2019 100,
              district_row ''Punjab'' ''Amritsar'' ''Wheat'' 2020 90,
              district_row ''Punjab'' ''Ludhiana'' ''Wheat'' 2020 120,
              district_row ''Kerala'' ''Idukki'' ''Rice'' 2021 10]\<rparr>"

text \<open>
  A state-level crop table as the JSON API delivers it, every field a string, without
  a year column; and the same table with numbers.
\<close>

definition string_crop_table :: table where
  "string_crop_table =
     \<lparr>columns = [''State'', ''Crop'', ''Production''],
      rows = [[(''State'', CStr ''Punjab''), (''Crop'', CStr ''Wheat''), (''Production'', CStr ''100'')],
              [(''State'', CStr ''Punjab''), (''Crop'', CStr ''Wheat''), (''Production'', CStr ''200'')]]\<rparr>"

definition numeric_crop_table :: table where
  "numeric_crop_table =
     \<lparr>columns = [''State'', ''Crop'', ''Production''],
      rows = [[(''State'', CStr ''Punjab''), (''Crop'', CStr ''Wheat''), (''Production'', CNum 100)],
              [(''State'', CStr ''Punjab''), (''Crop'', CStr ''Wheat''), (''Production'', CNum 200)]]\<rparr>"

text \<open>The string-valued crop table with a year column.\<close>

definition string_year_crop_table :: table where
  "string_year_crop_table =
     \<lparr>columns = [''State'', ''Crop'', ''Year'', ''Production''],
      rows = [[(''State'', CStr ''Punjab''), (''Crop'', CStr ''Wheat''), (''Year'', CStr ''2020''),
               (''Production'', CStr ''100'')],
              [(''State'', CStr ''Punjab''), (''Crop'', CStr ''Wheat''), (''Year'', CStr ''2020''),
               (''Production'', CStr ''200'')]]\<rparr>"

text \<open>The Punjab table with one later row (2021) of another state.\<close>

definition punjab_kerala_table :: table where
  "punjab_kerala_table = punjab_table\<lparr>rows := rows punjab_table @ [crop_row ''Kerala'' ''Rice'' 2021 10]\<rparr>"

section \<open>Properties of column-role resolution\<close>

lemma find_exact_find: "find_exact cs cols = find (\<lambda>c. c \<in> set cols) cs"
  by (induction cs) simp_all

lemma find_app:
  "find P (xs @ ys) = (case find P xs of None \<Rightarrow> find P ys | Some x \<Rightarrow> Some x)"
  by (induction xs) simp_all

lemma find_Some_in: "find P xs = Some x \<Longrightarrow> x \<in> set xs \<and> P x"
  by (induction xs) (auto split: if_splits)

lemma lower_map_find:
  "lower_map cols k = find (\<lambda>col. lower_str col = k) (rev cols)"
proof (induction cols)
  case Nil
  show ?case by simp
next
  case (Cons c cs)
  show ?case
  proof (cases "find (\<lambda>col. lower_str col = k) (rev cs)")
    case None
    then show ?thesis using Cons by (auto simp: find_app)
  next
    case (Some col)
    then show ?thesis using Cons by (simp add: find_app)
  qed
qed

lemma lower_map_None: "lower_map cols k = None \<longleftrightarrow> k \<notin> lower_str ` set cols"
  by (auto simp: lower_map_find find_None_iff)

lemma lower_map_Some_in: "lower_map cols k = Some col \<Longrightarrow> col \<in> set cols \<and> lower_str col = k"
  using find_Some_in [of "\<lambda>c. lower_str c = k" "rev cols" col]
  by (simp add: lower_map_find)

lemma find_lower_first_ci:
  "find_lower cs (lower_map cols) =
     (case first_ci_candidate cs cols of
        Some c \<Rightarrow> find (\<lambda>col. lower_str col = lower_str c) (rev cols)
      | None \<Rightarrow> None)"
proof (induction cs)
  case Nil
  show ?case by (simp add: first_ci_candidate_def)
next
  case (Cons c cs)
  show ?case
  proof (cases "lower_map cols (lower_str c)")
    case None
    then have "lower_str c \<notin> lower_str ` set cols" by (simp add: lower_map_None)
    with None Cons show ?thesis by (simp add: first_ci_candidate_def)
  next
    case (Some col)
    then have "lower_str c \<in> lower_str ` set cols"
      using lower_map_None [of cols "lower_str c"] by auto
    with Some show ?thesis
      by (simp add: first_ci_candidate_def lower_map_find)
  qed
qed

lemma find_exact_in: "find_exact cs cols = Some r \<Longrightarrow> r \<in> set cols"
  by (induction cs) (auto split: if_splits)

lemma find_lower_in: "find_lower cs (lower_map cols) = Some r \<Longrightarrow> r \<in> set cols"
  by (induction cs) (auto split: option.splits dest: lower_map_Some_in)

lemma find_col_in: "find_col cs cols = Some r \<Longrightarrow> r \<in> set cols"
  by (auto simp: find_col_def split: option.splits dest: find_exact_in find_lower_in)

lemma pick_eq_find_col: "pick cs cols = find_col cs cols"
  by (simp add: pick_def find_col_def)

text \<open>
  Claim C6, as the code has it. Resolution is a total function (it always returns a
  column name or \<open>None\<close>); \<open>pick\<close> and \<open>find_col\<close> are the same function; the result
  is the first candidate that is a column exactly, and only when no candidate is, the
  last column that equals, up to case, the first candidate present up to case; a
  returned name is always one of the table's columns.
\<close>

theorem C6_resolution_two_pass:
  "pick candidates cols = find_col candidates cols \<and>
   find_col candidates cols = resolve_two_pass candidates cols \<and>
   (\<forall>r. find_col candidates cols = Some r \<longrightarrow> r \<in> set cols) \<and>
   (first_ci_candidate candidates cols = None \<longrightarrow> find_col candidates cols = None)"
proof -
  have "find_col candidates cols = resolve_two_pass candidates cols"
    by (simp add: find_col_def resolve_two_pass_def find_exact_find find_lower_first_ci
        split: option.splits)
  moreover have "first_ci_candidate candidates cols = None \<longrightarrow> find_col candidates cols = None"
  proof
    assume n: "first_ci_candidate candidates cols = None"
    then have "\<forall>c \<in> set candidates. c \<notin> set cols"
      by (auto simp: first_ci_candidate_def find_None_iff)
    then have "find (\<lambda>c. c \<in> set cols) candidates = None"
      by (simp add: find_None_iff)
    with n show "find_col candidates cols = None"
      by (simp add: find_col_def find_exact_find find_lower_first_ci)
  qed
  ultimately show ?thesis
    using find_col_in pick_eq_find_col by blast
qed

theorem C6_resolution_two_pass_witness:
  "find_col state_candidates [''state_name'', ''Crop''] = Some ''state_name'' \<and>
   ''state_name'' \<in> set [''state_name'', ''Crop''] \<and>
   first_ci_candidate state_candidates [''Year''] = None \<and>
   find_col state_candidates [''Year''] = None"
proof -
  have a: "find_col state_candidates [''state_name'', ''Crop''] = Some ''state_name''"
    by (simp add: find_col_def state_candidates_def lower_str_def lower_char_def)
  have b: "first_ci_candidate state_candidates [''Year''] = None"
    by (simp add: first_ci_candidate_def state_candidates_def lower_str_def lower_char_def)
  have c: "find_col state_candidates [''Year''] = None"
    using b C6_resolution_two_pass [of state_candidates "[''Year'']"] by blast
  have d: "''state_name'' \<in> set [''state_name'', ''Crop'']"
    using a C6_resolution_two_pass [of state_candidates "[''state_name'', ''Crop'']"] by blast
  show ?thesis using a b c d by blast
qed

text \<open>
  The claim as stated fails: with the state candidates and the columns
  \<open>state_name\<close>, \<open>State\<close>, the first candidate present up to case is \<open>State_Name\<close>
  (the column \<open>state_name\<close>), while the code returns \<open>State\<close>, the third candidate,
  because the exact pass over all candidates runs first.
\<close>

theorem C6_first_ci_candidate_counterexample:
  "first_ci_candidate state_candidates [''state_name'', ''State''] = Some ''State_Name'' \<and>
   find_col state_candidates [''state_name'', ''State''] = Some ''State'' \<and>
   lower_str ''State'' \<noteq> lower_str ''State_Name''"
  by (simp add: find_col_def first_ci_candidate_def state_candidates_def
      lower_str_def lower_char_def)

section \<open>The planner\<close>

lemma copy_args_ok: "has_args parsed ks \<Longrightarrow> \<exists>args. copy_args parsed ks = Inr args"
proof (induction ks)
  case Nil
  show ?case by simp
next
  case (Cons k ks)
  then obtain v args where "dict_get parsed k = Some v" "copy_args parsed ks = Inr args"
    by (auto simp: has_args_def)
  then show ?case by (simp add: bind_def subscript_def)
qed

lemma has_args_sub: "has_args parsed ks \<Longrightarrow> set ks' \<subseteq> set ks \<Longrightarrow> has_args parsed ks'"
  by (auto simp: has_args_def list_all_iff)

lemma make_step_ok: "has_args parsed ks \<Longrightarrow> \<exists>st. make_step parsed ty ks = Inr st"
  using copy_args_ok [of parsed ks] by (auto simp: make_step_def bind_def)

lemma plan_steps_plan_with: "plan_steps (plan_with parsed steps) = Inr steps"
  by (simp add: plan_steps_def plan_with_def dict_get_def)

lemma make_plan_unknown:
  assumes "\<forall>i. intent_of parsed = VStr i \<longrightarrow> intent_args i = None"
  shows "make_plan parsed = Inr (plan_with parsed [VStr ''demo-step''])"
proof -
  have "intent_of parsed \<noteq> VStr i" if "intent_args i \<noteq> None" for i
    using assms that by auto
  then have "intent_of parsed \<noteq> VStr ''rainfall_vs_top_crops''"
    "intent_of parsed \<noteq> VStr ''rainfall_compare''"
    "intent_of parsed \<noteq> VStr ''district_crop_extrema_compare''"
    "intent_of parsed \<noteq> VStr ''top_crops_state''"
    "intent_of parsed \<noteq> VStr ''district_highest_crop_year''"
    "intent_of parsed \<noteq> VStr ''district_crop_comparison''"
    by (simp_all add: intent_args_def)
  then show ?thesis by (simp add: make_plan_def)
qed

lemma execute_demo_step:
  "execute e ds (plan_with parsed [VStr ''demo-step'']) =
     Inr ([(''plan'', VDict (plan_with parsed [VStr ''demo-step''])), (''answer_data'', VDict [])], ds)"
  by (simp add: execute_def plan_steps_plan_with bind_def)

lemma make_plan_recognised:
  assumes i: "intent_of parsed = VStr i" and a: "intent_args i = Some ks"
    and h: "has_args parsed ks"
  shows "\<exists>plan steps. make_plan parsed = Inr plan \<and> plan_steps plan = Inr steps \<and>
           length steps = (if i = ''rainfall_vs_top_crops'' then 2 else 1)"
proof -
  consider "i = ''rainfall_vs_top_crops''" | "i = ''rainfall_compare''"
    | "i = ''district_crop_extrema_compare''" | "i = ''top_crops_state''"
    | "i = ''district_highest_crop_year''" | "i = ''district_crop_comparison''"
    using a by (auto simp: intent_args_def split: if_splits)
  then show ?thesis
  proof cases
    case 1
    with a have ks: "ks = [''state1'', ''state2'', ''years'', ''top_m'', ''crop_type'']"
      by (simp add: intent_args_def)
    obtain s1 where s1: "make_step parsed ''compute_rainfall_compare'' [''state1'', ''state2'', ''years''] = Inr s1"
      using make_step_ok [OF has_args_sub [OF h]] ks by fastforce
    obtain s2 where s2: "make_step parsed ''compute_top_crops'' [''state1'', ''state2'', ''top_m'', ''crop_type''] = Inr s2"
      using make_step_ok [OF has_args_sub [OF h]] ks by fastforce
    show ?thesis using 1 i s1 s2
      by (simp add: make_plan_def bind_def plan_steps_plan_with)
  next
    case 2
    with a have ks: "ks = [''state1'', ''state2'', ''years'']" by (simp add: intent_args_def)
    obtain s1 where "make_step parsed ''compute_rainfall_compare'' ks = Inr s1"
      using make_step_ok [OF h] by blast
    then show ?thesis using 2 i ks
      by (simp add: make_plan_def bind_def plan_steps_plan_with)
  next
    case 3
    with a have ks: "ks = [''state_max'', ''crop_max'', ''state_min'', ''crop_min'']"
      by (simp add: intent_args_def)
    obtain s1 where "make_step parsed ''compute_district_crop_extrema'' ks = Inr s1"
      using make_step_ok [OF h] by blast
    then show ?thesis using 3 i ks
      by (simp add: make_plan_def bind_def plan_steps_plan_with)
  next
    case 4
    with a have ks: "ks = [''state'', ''top_n'', ''years'']" by (simp add: intent_args_def)
    obtain s1 where "make_step parsed ''compute_top_crops_state'' ks = Inr s1"
      using make_step_ok [OF h] by blast
    then show ?thesis using 4 i ks
      by (simp add: make_plan_def bind_def plan_steps_plan_with)
  next
    case 5
    with a have ks: "ks = [''state'', ''crop'', ''year'']" by (simp add: intent_args_def)
    obtain s1 where "make_step parsed ''compute_district_highest_crop_year'' ks = Inr s1"
      using make_step_ok [OF h] by blast
    then show ?thesis using 5 i ks
      by (simp add: make_plan_def bind_def plan_steps_plan_with)
  next
    case 6
    with a have ks: "ks = [''state'', ''crop'', ''years'']" by (simp add: intent_args_def)
    obtain s1 where "make_step parsed ''compute_district_crop_comparison'' ks = Inr s1"
      using make_step_ok [OF h] by blast
    then show ?thesis using 6 i ks
      by (simp add: make_plan_def bind_def plan_steps_plan_with)
  qed
qed

text \<open>
  Claim C2, as the code has it. A parsed dict whose intent is one of the six
  recognised intents and which carries that intent's arguments gets a plan of exactly
  2 steps for \<open>rainfall_vs_top_crops\<close> and exactly 1 step otherwise. For every other
  intent (the parser's \<open>unknown\<close> among them) the plan is not empty: it holds the one
  placeholder step \<open>"demo-step"\<close>, a string, which the executor skips, so that
  planning and executing returns without error and with an empty answer data.
\<close>

theorem C2_plan_step_counts:
  "(intent_of parsed = VStr i \<and> intent_args i = Some ks \<and> has_args parsed ks \<longrightarrow>
      (\<exists>plan steps. make_plan parsed = Inr plan \<and> plan_steps plan = Inr steps \<and>
         length steps = (if i = ''rainfall_vs_top_crops'' then 2 else 1))) \<and>
   ((\<forall>j. intent_of parsed = VStr j \<longrightarrow> intent_args j = None) \<longrightarrow>
      make_plan parsed = Inr (plan_with parsed [VStr ''demo-step'']) \<and>
      plan_steps (plan_with parsed [VStr ''demo-step'']) = Inr [VStr ''demo-step''] \<and>
      plan_and_execute e ds parsed =
        Inr ([(''plan'', VDict (plan_with parsed [VStr ''demo-step''])),
              (''answer_data'', VDict [])], ds))"
  using make_plan_recognised [of parsed i ks] make_plan_unknown [of parsed]
    execute_demo_step [of e ds parsed]
  by (simp add: plan_and_execute_def bind_def plan_steps_plan_with)

theorem C2_plan_step_counts_witness:
  "(\<exists>plan steps.
      make_plan [(''intent'', VStr ''rainfall_vs_top_crops''), (''state1'', VStr ''Punjab''),
                 (''state2'', VStr ''Kerala''), (''years'', VInt 3), (''top_m'', VInt 2),
                 (''crop_type'', VStr ''cereals'')] = Inr plan \<and>
      plan_steps plan = Inr steps \<and> length steps = 2) \<and>
   (\<exists>plan steps.
      make_plan [(''intent'', VStr ''top_crops_state''), (''state'', VStr ''Punjab''),
                 (''top_n'', VInt 2), (''years'', VInt 3)] = Inr plan \<and>
      plan_steps plan = Inr steps \<and> length steps = 1) \<and>
   plan_and_execute (example_env empty_table) empty_store (unknown_intent ''hello'' VNone) =
     Inr ([(''plan'', VDict (plan_with (unknown_intent ''hello'' VNone) [VStr ''demo-step''])),
           (''answer_data'', VDict [])], empty_store)"
proof -
  let ?p1 = "[(''intent'', VStr ''rainfall_vs_top_crops''), (''state1'', VStr ''Punjab''),
              (''state2'', VStr ''Kerala''), (''years'', VInt 3), (''top_m'', VInt 2),
              (''crop_type'', VStr ''cereals'')]"
  let ?p2 = "[(''intent'', VStr ''top_crops_state''), (''state'', VStr ''Punjab''),
              (''top_n'', VInt 2), (''years'', VInt 3)]"
  have a: "intent_of ?p1 = VStr ''rainfall_vs_top_crops'' \<and>
        intent_args ''rainfall_vs_top_crops'' =
          Some [''state1'', ''state2'', ''years'', ''top_m'', ''crop_type''] \<and>
        has_args ?p1 [''state1'', ''state2'', ''years'', ''top_m'', ''crop_type'']"
    by (simp add: intent_of_def intent_args_def has_args_def dict_get_def)
  have b: "intent_of ?p2 = VStr ''top_crops_state'' \<and>
        intent_args ''top_crops_state'' = Some [''state'', ''top_n'', ''years''] \<and>
        has_args ?p2 [''state'', ''top_n'', ''years'']"
    by (simp add: intent_of_def intent_args_def has_args_def dict_get_def)
  have c: "\<forall>j. intent_of (unknown_intent ''hello'' VNone) = VStr j \<longrightarrow> intent_args j = None"
    by (simp add: intent_of_def unknown_intent_def dict_get_def intent_args_def)
  have 1: "\<exists>plan steps. make_plan ?p1 = Inr plan \<and> plan_steps plan = Inr steps \<and> length steps = 2"
    using a C2_plan_step_counts [of ?p1 "''rainfall_vs_top_crops''"
        "[''state1'', ''state2'', ''years'', ''top_m'', ''crop_type'']"]
    by simp
  have 2: "\<exists>plan steps. make_plan ?p2 = Inr plan \<and> plan_steps plan = Inr steps \<and> length steps = 1"
    using b C2_plan_step_counts [of ?p2 "''top_crops_state''" "[''state'', ''top_n'', ''years'']"]
    by simp
  have 3: "plan_and_execute (example_env empty_table) empty_store (unknown_intent ''hello'' VNone) =
     Inr ([(''plan'', VDict (plan_with (unknown_intent ''hello'' VNone) [VStr ''demo-step''])),
           (''answer_data'', VDict [])], empty_store)"
    using c C2_plan_step_counts [of "unknown_intent ''hello'' VNone" _ _
        "example_env empty_table" empty_store]
    by blast
  show ?thesis using 1 2 3 by blast
qed

text \<open>
  The claim as stated fails for the unknown intent: the plan built for the parser's
  \<open>unknown\<close> result is not empty, it has the one step \<open>"demo-step"\<close>.
\<close>

theorem C2_unknown_plan_counterexample:
  "bind (make_plan (unknown_intent ''hello'' VNone)) plan_steps = Inr [VStr ''demo-step''] \<and>
   bind (make_plan (unknown_intent ''hello'' VNone)) plan_steps \<noteq> Inr []"
  by (simp add: make_plan_def intent_of_def unknown_intent_def dict_get_def bind_def
      plan_steps_plan_with)

section \<open>The executor's loop\<close>

lemma run_step_other: "other_step step \<Longrightarrow> run_step e step acc = Inl AttributeError"
  by (cases step) simp_all

lemma run_step_skipped: "skipped step \<Longrightarrow> run_step e step acc = Inr acc"
proof (cases step)
  case (VDict d)
  assume "skipped step"
  with VDict show ?thesis
    by (cases acc) (simp add: run_dict_step_def recognised_types_def)
qed simp_all

lemma run_steps_skipped: "list_all skipped steps \<Longrightarrow> run_steps e steps acc = Inr acc"
  by (induction steps) (simp_all add: run_step_skipped bind_def)

lemma run_steps_append:
  "run_steps e (steps1 @ steps2) acc = bind (run_steps e steps1 acc) (run_steps e steps2)"
proof (induction steps1 arbitrary: acc)
  case Nil
  show ?case by (simp add: bind_def)
next
  case (Cons st steps1)
  show ?case
  proof (cases "run_step e st acc")
    case (Inl x)
    then show ?thesis by (simp add: bind_def)
  next
    case (Inr acc')
    then show ?thesis using Cons [of acc'] by (simp add: bind_def)
  qed
qed

lemma run_steps_raise:
  "run_steps e steps1 acc = Inr acc1 \<Longrightarrow> run_step e step acc1 = Inl x \<Longrightarrow>
   run_steps e (steps1 @ step # steps2) acc = Inl x"
  by (simp add: run_steps_append bind_def)

lemma execute_skipped:
  "plan_steps plan = Inr steps \<Longrightarrow> list_all skipped steps \<Longrightarrow>
   execute e ds plan = Inr ([(''plan'', VDict plan), (''answer_data'', VDict [])], ds)"
  by (simp add: execute_def bind_def run_steps_skipped)

lemma execute_raise:
  "plan_steps plan = Inr (steps1 @ step # steps2) \<Longrightarrow>
   run_steps e steps1 ([], ds) = Inr acc1 \<Longrightarrow> run_step e step acc1 = Inl x \<Longrightarrow>
   execute e ds plan = Inl x"
  by (simp add: execute_def bind_def run_steps_raise)

lemma execute_returns:
  "plan_steps plan = Inr steps \<Longrightarrow> run_steps e steps ([], ds) = Inr (results, ds') \<Longrightarrow>
   execute e ds plan = Inr ([(''plan'', VDict plan), (''answer_data'', VDict results)], ds')"
  by (simp add: execute_def bind_def)

text \<open>
  A dict step of a recognised type, whatever else it holds and in whatever order:
  the first argument it lacks raises KeyError; with all arguments present the
  computation is called with their values and its outcome is stored or raised.
\<close>

lemma run_rainfall_dict:
  "dict_get d ''type'' = Some (VStr ''compute_rainfall_compare'') \<Longrightarrow>
   run_step e (VDict d) (results, ds) =
     (case first_missing d [''state1'', ''state2'', ''years''] of
        Some k \<Rightarrow> Inl (KeyError k)
      | None \<Rightarrow> record_under ''rainfall_compare'' results
          (call_rainfall_compare e ds (arg d ''state1'') (arg d ''state2'') (arg d ''years'')))"
  by (simp add: run_dict_step_def subscript_def bind_def first_missing_def arg_def
      split: option.splits)

lemma run_top_crops_dict:
  "dict_get d ''type'' = Some (VStr ''compute_top_crops'') \<Longrightarrow>
   run_step e (VDict d) (results, ds) =
     (case first_missing d [''state1'', ''state2'', ''top_m'', ''crop_type''] of
        Some k \<Rightarrow> Inl (KeyError k)
      | None \<Rightarrow> record_under ''top_crops'' results
          (call_top_crops e ds (arg d ''state1'') (arg d ''state2'') (arg d ''top_m'')
             (arg d ''crop_type'')))"
  by (simp add: run_dict_step_def subscript_def bind_def first_missing_def arg_def
      split: option.splits)

lemma run_extrema_dict:
  "dict_get d ''type'' = Some (VStr ''compute_district_crop_extrema'') \<Longrightarrow>
   run_step e (VDict d) (results, ds) =
     (case first_missing d [''state_max'', ''crop_max'', ''state_min'', ''crop_min''] of
        Some k \<Rightarrow> Inl (KeyError k)
      | None \<Rightarrow> record_under ''district_crop_extrema'' results
          (call_district_crop_extrema e ds (arg d ''state_max'') (arg d ''crop_max'')
             (arg d ''state_min'') (arg d ''crop_min'')))"
  by (simp add: run_dict_step_def subscript_def bind_def first_missing_def arg_def
      split: option.splits)

lemma run_top_crops_state_dict:
  "dict_get d ''type'' = Some (VStr ''compute_top_crops_state'') \<Longrightarrow>
   run_step e (VDict d) (results, ds) =
     (case first_missing d [''state'', ''top_n'', ''years''] of
        Some k \<Rightarrow> Inl (KeyError k)
      | None \<Rightarrow> record_under ''top_crops_state'' results
          (call_top_crops_state e ds (arg d ''state'') (arg d ''top_n'') (arg d ''years'')))"
  by (simp add: run_dict_step_def subscript_def bind_def first_missing_def arg_def
      split: option.splits)

lemma run_highest_dict:
  "dict_get d ''type'' = Some (VStr ''compute_district_highest_crop_year'') \<Longrightarrow>
   run_step e (VDict d) (results, ds) =
     (case first_missing d [''state'', ''crop'', ''year''] of
        Some k \<Rightarrow> Inl (KeyError k)
      | None \<Rightarrow> record_under ''district_highest_crop_year'' results
          (call_district_highest_crop_year e ds (arg d ''state'') (arg d ''crop'') (arg d ''year'')))"
  by (simp add: run_dict_step_def subscript_def bind_def first_missing_def arg_def
      split: option.splits)

lemma run_comparison_dict:
  "dict_get d ''type'' = Some (VStr ''compute_district_crop_comparison'') \<Longrightarrow>
   run_step e (VDict d) (results, ds) =
     (case first_missing d [''state'', ''crop'', ''years''] of
        Some k \<Rightarrow> Inl (KeyError k)
      | None \<Rightarrow> record_under ''district_crop_comparison'' results
          (call_district_crop_comparison e ds (arg d ''state'') (arg d ''crop'') (arg d ''years'')))"
  by (simp add: run_dict_step_def subscript_def bind_def first_missing_def arg_def
      split: option.splits)

text \<open>The calls with arguments of the planner's types are the modelled computations.\<close>

lemma typed_calls:
  "call_rainfall_compare e ds (VStr s1) (VStr s2) (VInt n) =
     with_store ds (compute_rainfall_compare e s1 s2 n)"
  "call_top_crops e ds (VStr s1) (VStr s2) (VInt n) (VStr ct) =
     with_store ds (compute_top_crops e s1 s2 n ct)"
  "call_district_crop_extrema e ds (VStr s1) (VStr c1) (VStr s2) (VStr c2) =
     compute_district_crop_extrema e ds s1 c1 s2 c2"
  "call_top_crops_state e ds (VStr s1) (VInt n) (VInt y) = compute_top_crops_state e ds s1 n y"
  "call_district_highest_crop_year e ds (VStr s1) (VStr c1) (VInt y) =
     compute_district_highest_crop_year e ds s1 c1 y"
  "call_district_crop_comparison e ds (VStr s1) (VStr c1) (VInt y) =
     compute_district_crop_comparison e ds s1 c1 y"
  by (simp_all add: call_rainfall_compare_def call_top_crops_def call_district_crop_extrema_def
      call_top_crops_state_def call_district_highest_crop_year_def
      call_district_crop_comparison_def)

text \<open>The steps as the planner lays them out.\<close>

lemma run_rainfall_step:
  "run_step e (rainfall_step s1 s2 n) (results, ds) =
     record_under ''rainfall_compare'' results (with_store ds (compute_rainfall_compare e s1 s2 n))"
  by (simp add: rainfall_step_def run_dict_step_def dict_get_def subscript_def bind_def
      typed_calls)

lemma run_top_crops_step:
  "run_step e (top_crops_step s1 s2 m ct) (results, ds) =
     record_under ''top_crops'' results (with_store ds (compute_top_crops e s1 s2 m ct))"
  by (simp add: top_crops_step_def run_dict_step_def dict_get_def subscript_def bind_def
      typed_calls)

lemma run_extrema_step:
  "run_step e (extrema_step s1 c1 s2 c2) (results, ds) =
     record_under ''district_crop_extrema'' results
       (compute_district_crop_extrema e ds s1 c1 s2 c2)"
  by (simp add: extrema_step_def run_dict_step_def dict_get_def subscript_def bind_def
      typed_calls)

lemma run_top_crops_state_step:
  "run_step e (top_crops_state_step st n y) (results, ds) =
     record_under ''top_crops_state'' results (compute_top_crops_state e ds st n y)"
  by (simp add: top_crops_state_step_def run_dict_step_def dict_get_def subscript_def bind_def
      typed_calls)

lemma run_highest_step:
  "run_step e (highest_step st c y) (results, ds) =
     record_under ''district_highest_crop_year'' results
       (compute_district_highest_crop_year e ds st c y)"
  by (simp add: highest_step_def run_dict_step_def dict_get_def subscript_def bind_def
      typed_calls)

lemma run_comparison_step:
  "run_step e (comparison_step st c y) (results, ds) =
     record_under ''district_crop_comparison'' results
       (compute_district_crop_comparison e ds st c y)"
  by (simp add: comparison_step_def run_dict_step_def dict_get_def subscript_def bind_def
      typed_calls)

lemma record_under_rules:
  "record_under key results (Inl x) = Inl x"
  "record_under key results (Inr (r, ds')) = Inr (dict_set results key r, ds')"
  "with_store ds (Inl x) = Inl x"
  "with_store ds (Inr r) = Inr (r, ds)"
  by (simp_all add: record_under_def with_store_def)

lemma run_steps_cons:
  "run_step e step acc = Inr acc1 \<longrightarrow> run_steps e (step # steps) acc = run_steps e steps acc1"
  "run_step e step acc = Inl x \<longrightarrow> run_steps e (step # steps) acc = Inl x"
  by (simp_all add: bind_def)

text \<open>
  Claim C1, as the code has it. \<open>execute\<close> runs the steps in order, each on the
  results and the store the steps before it left. A step that is a string, or a dict
  whose type is none of the six, leaves both as they are; a plan of such steps only has
  an empty answer data. A value that is neither a string nor a dict has no \<open>get\<close>
  and raises AttributeError. A dict step of a recognised type, whatever its other
  entries and their order, raises KeyError for the first argument it lacks; with all
  arguments present its computation is called with their values, and what the
  computation returns, an error payload included, is stored under the computation's
  key, while what it raises is raised by the step. With arguments of the planner's
  types the calls are the computations of this theory. \<open>execute\<close> has no exception
  handler: a plan whose steps all return gives the plan and the results, and when a step
  raises, \<open>execute\<close> raises the same exception and the steps after it are not run.
\<close>

theorem C1_execute_steps:
  "(skipped step \<longrightarrow> run_step e step acc = Inr acc) \<and>
   (other_step step \<longrightarrow> run_step e step acc = Inl AttributeError) \<and>
   (dict_get d ''type'' = Some (VStr ''compute_rainfall_compare'') \<longrightarrow>
      run_step e (VDict d) (results, ds) =
        (case first_missing d [''state1'', ''state2'', ''years''] of
           Some k \<Rightarrow> Inl (KeyError k)
         | None \<Rightarrow> record_under ''rainfall_compare'' results
             (call_rainfall_compare e ds (arg d ''state1'') (arg d ''state2'') (arg d ''years'')))) \<and>
   (dict_get d ''type'' = Some (VStr ''compute_top_crops'') \<longrightarrow>
      run_step e (VDict d) (results, ds) =
        (case first_missing d [''state1'', ''state2'', ''top_m'', ''crop_type''] of
           Some k \<Rightarrow> Inl (KeyError k)
         | None \<Rightarrow> record_under ''top_crops'' results
             (call_top_crops e ds (arg d ''state1'') (arg d ''state2'') (arg d ''top_m'')
                (arg d ''crop_type'')))) \<and>
   (dict_get d ''type'' = Some (VStr ''compute_district_crop_extrema'') \<longrightarrow>
      run_step e (VDict d) (results, ds) =
        (case first_missing d [''state_max'', ''crop_max'', ''state_min'', ''crop_min''] of
           Some k \<Rightarrow> Inl (KeyError k)
         | None \<Rightarrow> record_under ''district_crop_extrema'' results
             (call_district_crop_extrema e ds (arg d ''state_max'') (arg d ''crop_max'')
                (arg d ''state_min'') (arg d ''crop_min'')))) \<and>
   (dict_get d ''type'' = Some (VStr ''compute_top_crops_state'') \<longrightarrow>
      run_step e (VDict d) (results, ds) =
        (case first_missing d [''state'', ''top_n'', ''years''] of
           Some k \<Rightarrow> Inl (KeyError k)
         | None \<Rightarrow> record_under ''top_crops_state'' results
             (call_top_crops_state e ds (arg d ''state'') (arg d ''top_n'') (arg d ''years'')))) \<and>
   (dict_get d ''type'' = Some (VStr ''compute_district_highest_crop_year'') \<longrightarrow>
      run_step e (VDict d) (results, ds) =
        (case first_missing d [''state'', ''crop'', ''year''] of
           Some k \<Rightarrow> Inl (KeyError k)
         | None \<Rightarrow> record_under ''district_highest_crop_year'' results
             (call_district_highest_crop_year e ds (arg d ''state'') (arg d ''crop'')
                (arg d ''year'')))) \<and>
   (dict_get d ''type'' = Some (VStr ''compute_district_crop_comparison'') \<longrightarrow>
      run_step e (VDict d) (results, ds) =
        (case first_missing d [''state'', ''crop'', ''years''] of
           Some k \<Rightarrow> Inl (KeyError k)
         | None \<Rightarrow> record_under ''district_crop_comparison'' results
             (call_district_crop_comparison e ds (arg d ''state'') (arg d ''crop'')
                (arg d ''years'')))) \<and>
   record_under key results (Inl x) = Inl x \<and>
   record_under key results (Inr (r, ds')) = Inr (dict_set results key r, ds') \<and>
   call_rainfall_compare e ds (VStr s1) (VStr s2) (VInt n) =
     with_store ds (compute_rainfall_compare e s1 s2 n) \<and>
   call_top_crops e ds (VStr s1) (VStr s2) (VInt n) (VStr ct) =
     with_store ds (compute_top_crops e s1 s2 n ct) \<and>
   call_district_crop_extrema e ds (VStr s1) (VStr c1) (VStr s2) (VStr c2) =
     compute_district_crop_extrema e ds s1 c1 s2 c2 \<and>
   call_top_crops_state e ds (VStr s1) (VInt n) (VInt y) = compute_top_crops_state e ds s1 n y \<and>
   call_district_highest_crop_year e ds (VStr s1) (VStr c1) (VInt y) =
     compute_district_highest_crop_year e ds s1 c1 y \<and>
   call_district_crop_comparison e ds (VStr s1) (VStr c1) (VInt y) =
     compute_district_crop_comparison e ds s1 c1 y \<and>
   with_store ds (Inl x) = Inl x \<and>
   with_store ds (Inr r) = Inr (r, ds) \<and>
   run_steps e [] acc = Inr acc \<and>
   (run_step e step acc = Inr acc1 \<longrightarrow>
      run_steps e (step # steps) acc = run_steps e steps acc1) \<and>
   (run_step e step acc = Inl x \<longrightarrow> run_steps e (step # steps) acc = Inl x) \<and>
   (plan_steps plan = Inr steps \<and> run_steps e steps ([], ds) = Inr (results, ds') \<longrightarrow>
      execute e ds plan =
        Inr ([(''plan'', VDict plan), (''answer_data'', VDict results)], ds')) \<and>
   (plan_steps plan = Inr steps \<and> list_all skipped steps \<longrightarrow>
      execute e ds plan = Inr ([(''plan'', VDict plan), (''answer_data'', VDict [])], ds)) \<and>
   (plan_steps plan = Inr (steps1 @ step # steps2) \<and>
    run_steps e steps1 ([], ds) = Inr acc1 \<and> run_step e step acc1 = Inl x \<longrightarrow>
      execute e ds plan = Inl x)"
proof (intro conjI)
  show "skipped step \<longrightarrow> run_step e step acc = Inr acc"
    using run_step_skipped by blast
  show "other_step step \<longrightarrow> run_step e step acc = Inl AttributeError"
    using run_step_other by blast
  show "plan_steps plan = Inr steps \<and> run_steps e steps ([], ds) = Inr (results, ds') \<longrightarrow>
      execute e ds plan =
        Inr ([(''plan'', VDict plan), (''answer_data'', VDict results)], ds')"
    using execute_returns by blast
  show "plan_steps plan = Inr steps \<and> list_all skipped steps \<longrightarrow>
      execute e ds plan = Inr ([(''plan'', VDict plan), (''answer_data'', VDict [])], ds)"
    using execute_skipped by blast
  show "plan_steps plan = Inr (steps1 @ step # steps2) \<and>
    run_steps e steps1 ([], ds) = Inr acc1 \<and> run_step e step acc1 = Inl x \<longrightarrow>
      execute e ds plan = Inl x"
    using execute_raise by blast
  show "dict_get d ''type'' = Some (VStr ''compute_rainfall_compare'') \<longrightarrow>
      run_step e (VDict d) (results, ds) =
        (case first_missing d [''state1'', ''state2'', ''years''] of
           Some k \<Rightarrow> Inl (KeyError k)
         | None \<Rightarrow> record_under ''rainfall_compare'' results
             (call_rainfall_compare e ds (arg d ''state1'') (arg d ''state2'') (arg d ''years'')))"
    using run_rainfall_dict by blast
  show "dict_get d ''type'' = Some (VStr ''compute_top_crops'') \<longrightarrow>
      run_step e (VDict d) (results, ds) =
        (case first_missing d [''state1'', ''state2'', ''top_m'', ''crop_type''] of
           Some k \<Rightarrow> Inl (KeyError k)
         | None \<Rightarrow> record_under ''top_crops'' results
             (call_top_crops e ds (arg d ''state1'') (arg d ''state2'') (arg d ''top_m'')
                (arg d ''crop_type'')))"
    using run_top_crops_dict by blast
  show "dict_get d ''type'' = Some (VStr ''compute_district_crop_extrema'') \<longrightarrow>
      run_step e (VDict d) (results, ds) =
        (case first_missing d [''state_max'', ''crop_max'', ''state_min'', ''crop_min''] of
           Some k \<Rightarrow> Inl (KeyError k)
         | None \<Rightarrow> record_under ''district_crop_extrema'' results
             (call_district_crop_extrema e ds (arg d ''state_max'') (arg d ''crop_max'')
                (arg d ''state_min'') (arg d ''crop_min'')))"
    using run_extrema_dict by blast
  show "dict_get d ''type'' = Some (VStr ''compute_top_crops_state'') \<longrightarrow>
      run_step e (VDict d) (results, ds) =
        (case first_missing d [''state'', ''top_n'', ''years''] of
           Some k \<Rightarrow> Inl (KeyError k)
         | None \<Rightarrow> record_under ''top_crops_state'' results
             (call_top_crops_state e ds (arg d ''state'') (arg d ''top_n'') (arg d ''years'')))"
    using run_top_crops_state_dict by blast
  show "dict_get d ''type'' = Some (VStr ''compute_district_highest_crop_year'') \<longrightarrow>
      run_step e (VDict d) (results, ds) =
        (case first_missing d [''state'', ''crop'', ''year''] of
           Some k \<Rightarrow> Inl (KeyError k)
         | None \<Rightarrow> record_under ''district_highest_crop_year'' results
             (call_district_highest_crop_year e ds (arg d ''state'') (arg d ''crop'')
                (arg d ''year'')))"
    using run_highest_dict by blast
  show "dict_get d ''type'' = Some (VStr ''compute_district_crop_comparison'') \<longrightarrow>
      run_step e (VDict d) (results, ds) =
        (case first_missing d [''state'', ''crop'', ''years''] of
           Some k \<Rightarrow> Inl (KeyError k)
         | None \<Rightarrow> record_under ''district_crop_comparison'' results
             (call_district_crop_comparison e ds (arg d ''state'') (arg d ''crop'')
                (arg d ''years'')))"
    using run_comparison_dict by blast
  show "run_step e step acc = Inr acc1 \<longrightarrow>
      run_steps e (step # steps) acc = run_steps e steps acc1"
    using run_steps_cons(1) by blast
  show "run_step e step acc = Inl x \<longrightarrow> run_steps e (step # steps) acc = Inl x"
    using run_steps_cons(2) by blast
qed (simp_all only: typed_calls record_under_rules run_steps.simps)

lemma rainfall_foo_table: "compute_rainfall_compare (example_env foo_table) ''a'' ''b'' 3 =
   Inr (VDict [(''error'', VStr ''Rainfall dataset has unexpected schema''), (''columns'', VList [VStr ''foo''])])"
  by (simp add: compute_rainfall_compare_def load_rainfall_def fetch_dataset_def example_env_def
      foo_table_def df_empty_def pick_def state_col_candidates_def year_col_candidates_def
      annual_col_candidates_def lower_str_def lower_char_def)

lemma top_crops_foo_table: "compute_top_crops (example_env foo_table) ''a'' ''b'' 3 '''' =
   Inr (VDict [(''error'', VStr ''Crop dataset schema unexpected''), (''columns'', VList [VStr ''foo''])])"
  by (simp add: compute_top_crops_def load_crop_production_def fetch_dataset_def example_env_def
      foo_table_def df_empty_def find_col_def state_candidates_def crop_candidates_def
      prod_candidates_def lower_str_def lower_char_def coerce_if_present_def)

lemma rainfall_no_key: "compute_rainfall_compare no_key_env ''a'' ''b'' 3 = Inl RuntimeError"
  by (simp add: compute_rainfall_compare_def load_rainfall_def fetch_dataset_def no_key_env_def example_env_def)


theorem C1_execute_steps_witness:
  "skipped (VStr ''demo-step'') \<and> skipped (VDict [(''type'', VStr ''other'')]) \<and>
   other_step VNone \<and>
   run_step (example_env foo_table) VNone ([], empty_store) = Inl AttributeError \<and>
   run_step (example_env foo_table)
       (VDict [(''years'', VInt 3), (''note'', VStr ''x''), (''state2'', VStr ''b''),
               (''type'', VStr ''compute_rainfall_compare''), (''state1'', VStr ''a'')])
       ([], empty_store) =
     Inr ([(''rainfall_compare'', VDict [(''error'', VStr ''Rainfall dataset has unexpected schema''),
                                         (''columns'', VList [VStr ''foo''])])], empty_store) \<and>
   run_step (example_env foo_table)
       (VDict [(''type'', VStr ''compute_rainfall_compare''), (''state1'', VStr ''a''),
               (''years'', VInt 3)]) ([], empty_store) = Inl (KeyError ''state2'') \<and>
   run_step (example_env foo_table)
       (VDict [(''type'', VStr ''compute_top_crops''), (''state1'', VStr ''a''),
               (''state2'', VStr ''b''), (''top_m'', VInt 3)]) ([], empty_store) =
     Inl (KeyError ''crop_type'') \<and>
   run_step (example_env foo_table)
       (VDict [(''type'', VStr ''compute_district_crop_extrema'')]) ([], empty_store) =
     Inl (KeyError ''state_max'') \<and>
   run_step (example_env foo_table)
       (VDict [(''state'', VStr ''a''), (''type'', VStr ''compute_top_crops_state'')])
       ([], empty_store) = Inl (KeyError ''top_n'') \<and>
   run_step (example_env foo_table)
       (VDict [(''type'', VStr ''compute_district_highest_crop_year''), (''state'', VStr ''a''),
               (''crop'', VStr ''c'')]) ([], empty_store) = Inl (KeyError ''year'') \<and>
   run_step (example_env foo_table)
       (VDict [(''type'', VStr ''compute_district_crop_comparison''), (''years'', VInt 3)])
       ([], empty_store) = Inl (KeyError ''state'') \<and>
   execute (example_env foo_table) empty_store
     [(''steps'', VList [VStr ''demo-step'', VDict [(''type'', VStr ''other'')]])] =
     Inr ([(''plan'', VDict [(''steps'', VList [VStr ''demo-step'', VDict [(''type'', VStr ''other'')]])]),
           (''answer_data'', VDict [])], empty_store) \<and>
   execute (example_env foo_table) empty_store
     [(''steps'', VList [rainfall_step ''a'' ''b'' 3, top_crops_step ''a'' ''b'' 3 ''''])] =
     Inr ([(''plan'', VDict [(''steps'',
               VList [rainfall_step ''a'' ''b'' 3, top_crops_step ''a'' ''b'' 3 ''''])]),
           (''answer_data'', VDict
              [(''rainfall_compare'', VDict [(''error'', VStr ''Rainfall dataset has unexpected schema''),
                                             (''columns'', VList [VStr ''foo''])]),
               (''top_crops'', VDict [(''error'', VStr ''Crop dataset schema unexpected''),
                                      (''columns'', VList [VStr ''foo''])])])], empty_store) \<and>
   execute no_key_env empty_store
     [(''steps'', VList ([VStr ''demo-step''] @ rainfall_step ''a'' ''b'' 3 # [VStr ''later'']))] =
     Inl RuntimeError"
proof -
  let ?e = "example_env foo_table"
  let ?o = "VDict [(''type'', VStr ''other'')]"
  let ?p = "[(''steps'', VList [VStr ''demo-step'', ?o])]"
  let ?p2 = "[(''steps'', VList [rainfall_step ''a'' ''b'' 3, top_crops_step ''a'' ''b'' 3 ''''])]"
  let ?q = "[(''steps'', VList ([VStr ''demo-step''] @ rainfall_step ''a'' ''b'' 3 # [VStr ''later'']))]"
  let ?r1 = "[(''rainfall_compare'', VDict [(''error'', VStr ''Rainfall dataset has unexpected schema''),
                                         (''columns'', VList [VStr ''foo''])])]"
  let ?t = "(''top_crops'', VDict [(''error'', VStr ''Crop dataset schema unexpected''),
                                  (''columns'', VList [VStr ''foo''])])"
  note rules = dict_get_def first_missing_def arg_def record_under_def with_store_def
  have s: "skipped (VStr ''demo-step'') \<and> skipped ?o"
    by (simp add: dict_get_def recognised_types_def)
  have o: "other_step VNone \<and> run_step ?e VNone ([], empty_store) = Inl AttributeError"
    using C1_execute_steps [where e = ?e and step = VNone and acc = "([], empty_store)",
        THEN conjunct2, THEN conjunct1]
    by simp
  have d1: "run_step ?e
       (VDict [(''years'', VInt 3), (''note'', VStr ''x''), (''state2'', VStr ''b''),
               (''type'', VStr ''compute_rainfall_compare''), (''state1'', VStr ''a'')])
       ([], empty_store) = Inr (?r1, empty_store)"
    using C1_execute_steps [where e = ?e and ds = empty_store and results = "[]"
        and d = "[(''years'', VInt 3), (''note'', VStr ''x''), (''state2'', VStr ''b''),
                  (''type'', VStr ''compute_rainfall_compare''), (''state1'', VStr ''a'')]",
        THEN conjunct2, THEN conjunct2, THEN conjunct1]
      C1_execute_steps [where e = ?e and ds = empty_store and ?s1.0 = "''a''" and ?s2.0 = "''b''"
        and n = 3, THEN conjunct2, THEN conjunct2, THEN conjunct2, THEN conjunct2,
        THEN conjunct2, THEN conjunct2, THEN conjunct2, THEN conjunct2, THEN conjunct2,
        THEN conjunct2, THEN conjunct1]
    by (simp add: rules rainfall_foo_table)
  have m1: "run_step ?e
       (VDict [(''type'', VStr ''compute_rainfall_compare''), (''state1'', VStr ''a''),
               (''years'', VInt 3)]) ([], empty_store) = Inl (KeyError ''state2'')"
    using C1_execute_steps [where e = ?e and ds = empty_store and results = "[]"
        and d = "[(''type'', VStr ''compute_rainfall_compare''), (''state1'', VStr ''a''),
                  (''years'', VInt 3)]",
        THEN conjunct2, THEN conjunct2, THEN conjunct1]
    by (simp add: rules)
  have m2: "run_step ?e
       (VDict [(''type'', VStr ''compute_top_crops''), (''state1'', VStr ''a''),
               (''state2'', VStr ''b''), (''top_m'', VInt 3)]) ([], empty_store) =
     Inl (KeyError ''crop_type'')"
    using C1_execute_steps [where e = ?e and ds = empty_store and results = "[]"
        and d = "[(''type'', VStr ''compute_top_crops''), (''state1'', VStr ''a''),
                  (''state2'', VStr ''b''), (''top_m'', VInt 3)]",
        THEN conjunct2, THEN conjunct2, THEN conjunct2, THEN conjunct1]
    by (simp add: rules)
  have m3: "run_step ?e
       (VDict [(''type'', VStr ''compute_district_crop_extrema'')]) ([], empty_store) =
     Inl (KeyError ''state_max'')"
    using C1_execute_steps [where e = ?e and ds = empty_store and results = "[]"
        and d = "[(''type'', VStr ''compute_district_crop_extrema'')]",
        THEN conjunct2, THEN conjunct2, THEN conjunct2, THEN conjunct2, THEN conjunct1]
    by (simp add: rules)
  have m4: "run_step ?e
       (VDict [(''state'', VStr ''a''), (''type'', VStr ''compute_top_crops_state'')])
       ([], empty_store) = Inl (KeyError ''top_n'')"
    using C1_execute_steps [where e = ?e and ds = empty_store and results = "[]"
        and d = "[(''state'', VStr ''a''), (''type'', VStr ''compute_top_crops_state'')]",
        THEN conjunct2, THEN conjunct2, THEN conjunct2, THEN conjunct2, THEN conjunct2,
        THEN conjunct1]
    by (simp add: rules)
  have m5: "run_step ?e
       (VDict [(''type'', VStr ''compute_district_highest_crop_year''), (''state'', VStr ''a''),
               (''crop'', VStr ''c'')]) ([], empty_store) = Inl (KeyError ''year'')"
    using C1_execute_steps [where e = ?e and ds = empty_store and results = "[]"
        and d = "[(''type'', VStr ''compute_district_highest_crop_year''), (''state'', VStr ''a''),
                  (''crop'', VStr ''c'')]",
        THEN conjunct2, THEN conjunct2, THEN conjunct2, THEN conjunct2, THEN conjunct2,
        THEN conjunct2, THEN conjunct1]
    by (simp add: rules)
  have m6: "run_step ?e
       (VDict [(''type'', VStr ''compute_district_crop_comparison''), (''years'', VInt 3)])
       ([], empty_store) = Inl (KeyError ''state'')"
    using C1_execute_steps [where e = ?e and ds = empty_store and results = "[]"
        and d = "[(''type'', VStr ''compute_district_crop_comparison''), (''years'', VInt 3)]",
        THEN conjunct2, THEN conjunct2, THEN conjunct2, THEN conjunct2, THEN conjunct2,
        THEN conjunct2, THEN conjunct2, THEN conjunct1]
    by (simp add: rules)
  have ps: "plan_steps ?p = Inr [VStr ''demo-step'', ?o]"
    by (simp add: plan_steps_def dict_get_def)
  have a: "execute ?e empty_store ?p = Inr ([(''plan'', VDict ?p), (''answer_data'', VDict [])], empty_store)"
    using s ps C1_execute_steps [where plan = ?p and steps = "[VStr ''demo-step'', ?o]"
        and e = ?e and ds = empty_store, THEN conjunct2, THEN conjunct2, THEN conjunct2,
        THEN conjunct2, THEN conjunct2, THEN conjunct2, THEN conjunct2, THEN conjunct2,
        THEN conjunct2, THEN conjunct2, THEN conjunct2, THEN conjunct2, THEN conjunct2,
        THEN conjunct2, THEN conjunct2, THEN conjunct2, THEN conjunct2, THEN conjunct2,
        THEN conjunct2, THEN conjunct2, THEN conjunct2, THEN conjunct2, THEN conjunct1]
    by simp
  have r1: "run_step ?e (rainfall_step ''a'' ''b'' 3) ([], empty_store) = Inr (?r1, empty_store)"
    by (simp add: run_rainfall_step rainfall_foo_table rules)
  have r2: "run_step ?e (top_crops_step ''a'' ''b'' 3 '''') (?r1, empty_store) =
      Inr (?r1 @ [?t], empty_store)"
    by (simp add: run_top_crops_step top_crops_foo_table rules)
  have b0: "run_steps ?e [rainfall_step ''a'' ''b'' 3, top_crops_step ''a'' ''b'' 3 '''']
      ([], empty_store) = Inr (?r1 @ [?t], empty_store)"
    using r1 r2 by (simp add: bind_def)
  have ps2: "plan_steps ?p2 = Inr [rainfall_step ''a'' ''b'' 3, top_crops_step ''a'' ''b'' 3 '''']"
    by (simp add: plan_steps_def dict_get_def)
  have b: "execute ?e empty_store ?p2 =
      Inr ([(''plan'', VDict ?p2), (''answer_data'', VDict (?r1 @ [?t]))], empty_store)"
    using b0 ps2 C1_execute_steps [where plan = ?p2
        and steps = "[rainfall_step ''a'' ''b'' 3, top_crops_step ''a'' ''b'' 3 '''']"
        and e = ?e and ds = empty_store and results = "?r1 @ [?t]" and ds' = empty_store,
        THEN conjunct2, THEN conjunct2, THEN conjunct2,
        THEN conjunct2, THEN conjunct2, THEN conjunct2, THEN conjunct2, THEN conjunct2,
        THEN conjunct2, THEN conjunct2, THEN conjunct2, THEN conjunct2, THEN conjunct2,
        THEN conjunct2, THEN conjunct2, THEN conjunct2, THEN conjunct2, THEN conjunct2,
        THEN conjunct2, THEN conjunct2, THEN conjunct2, THEN conjunct1]
    by blast
  have q1: "plan_steps ?q = Inr ([VStr ''demo-step''] @ rainfall_step ''a'' ''b'' 3 # [VStr ''later''])"
    by (simp add: plan_steps_def dict_get_def)
  have q2: "run_steps no_key_env [VStr ''demo-step''] ([], empty_store) = Inr ([], empty_store)"
    by (simp add: bind_def)
  have q3: "run_step no_key_env (rainfall_step ''a'' ''b'' 3) ([], empty_store) = Inl RuntimeError"
    by (simp add: run_rainfall_step rainfall_no_key rules)
  have c: "execute no_key_env empty_store ?q = Inl RuntimeError"
    using q1 q2 q3 C1_execute_steps [where e = no_key_env and ds = empty_store and plan = ?q
        and ?steps1.0 = "[VStr ''demo-step'']" and step = "rainfall_step ''a'' ''b'' 3"
        and ?steps2.0 = "[VStr ''later'']" and ?acc1.0 = "([], empty_store)" and x = RuntimeError,
        THEN conjunct2, THEN conjunct2, THEN conjunct2,
        THEN conjunct2, THEN conjunct2, THEN conjunct2, THEN conjunct2, THEN conjunct2,
        THEN conjunct2, THEN conjunct2, THEN conjunct2, THEN conjunct2, THEN conjunct2,
        THEN conjunct2, THEN conjunct2, THEN conjunct2, THEN conjunct2, THEN conjunct2,
        THEN conjunct2, THEN conjunct2, THEN conjunct2, THEN conjunct2, THEN conjunct2]
    by blast
  show ?thesis using s o d1 m1 m2 m3 m4 m5 m6 a b c by simp
qed

text \<open>
  The claim as stated fails. A recognised step without its arguments makes \<open>execute\<close>
  raise KeyError, and a computation that raises (here the fetch, with a placeholder
  API key) makes \<open>execute\<close> raise too; in both plans the later step is never reached
  and no answer data is returned.
\<close>

theorem C1_execute_raises_counterexample:
  "execute (example_env foo_table) empty_store
     [(''steps'', VList [VDict [(''type'', VStr ''compute_rainfall_compare'')], VStr ''later''])] =
     Inl (KeyError ''state1'') \<and>
   execute no_key_env empty_store
     [(''steps'', VList [rainfall_step ''a'' ''b'' 3, VStr ''later''])] = Inl RuntimeError"
  by (simp add: execute_def plan_steps_def dict_get_def bind_def run_dict_step_def subscript_def
      rainfall_step_def call_rainfall_compare_def with_store_def record_under_def
      rainfall_no_key)

section \<open>\<open>_compute_top_crops_state\<close>: the missing production column and the missing return\<close>

lemma find_exact_None: "find_exact cs cols = None \<Longrightarrow> c \<in> set cs \<Longrightarrow> c \<notin> set cols"
  by (induction cs) (auto split: if_splits)

lemma find_col_None: "find_col cs cols = None \<Longrightarrow> c \<in> set cs \<Longrightarrow> c \<notin> set cols"
  by (auto simp: find_col_def split: option.splits dest: find_exact_None)

lemma top_crops_state_missing_production:
  assumes t: "top_crops_state_table e ds = Inr (df, alias)" and ne: "\<not> df_empty df"
    and sc: "truthy (find_col state_candidates (columns df))"
    and cc: "truthy (find_col crop_candidates (columns df))"
    and yc: "truthy (find_col year_candidates4 (columns df))"
    and pc: "find_col prod_candidates (columns df) = None"
  shows "compute_top_crops_state e ds state top_n years = Inl (KeyError ''Production'')"
proof -
  have "''Production'' \<notin> set (columns df)"
    using find_col_None [OF pc, of "''Production''"] by (simp add: prod_candidates_def)
  then show ?thesis
    using t ne sc cc yc pc by (simp add: compute_top_crops_state_def)
qed

text \<open>
  Claim C10. \<open>_compute_top_crops_state\<close> answers an empty table with the "dataset
  empty" error before it resolves any column. For every non-empty table it works on
  that has a state, a crop and a year column and no column matching a production
  candidate, the production role is the literal \<open>Production\<close>, the long-format branch
  is entered, and \<open>df["Production"]\<close> raises KeyError; nothing catches it, so the step
  and \<open>execute\<close> raise it.
\<close>

theorem C10_missing_production_raises:
  assumes "top_crops_state_table e ds = Inr (df, alias)" and "\<not> df_empty df"
    and "truthy (find_col state_candidates (columns df))"
    and "truthy (find_col crop_candidates (columns df))"
    and "truthy (find_col year_candidates4 (columns df))"
    and "find_col prod_candidates (columns df) = None"
  shows "compute_top_crops_state e ds state top_n years = Inl (KeyError ''Production'') \<and>
         run_step e (top_crops_state_step state top_n years) (results, ds) =
           Inl (KeyError ''Production'') \<and>
         execute e ds [(''steps'', VList [top_crops_state_step state top_n years])] =
           Inl (KeyError ''Production'')"
proof -
  have c: "compute_top_crops_state e ds state top_n years = Inl (KeyError ''Production'')"
    using assms by (rule top_crops_state_missing_production)
  then have r: "run_step e (top_crops_state_step state top_n years) acc = Inl (KeyError ''Production'')"
    if "snd acc = ds" for acc
    using that by (cases acc) (simp add: run_top_crops_state_step record_under_def)
  have "execute e ds [(''steps'', VList [top_crops_state_step state top_n years])] =
      Inl (KeyError ''Production'')"
    using r [of "([], ds)"] by (simp add: execute_def plan_steps_def dict_get_def bind_def)
  with c r [of "(results, ds)"] show ?thesis by simp
qed


lemma no_production_table_chain:
  "top_crops_state_table (example_env no_production_table) empty_store =
      Inr (no_production_table, None)"
  by (simp add: top_crops_state_table_def stored_nonempty_def get_dataset_def empty_store_def
        load_crop_production_def fetch_dataset_def example_env_def)

lemma no_production_table_cols:
  "truthy (find_col state_candidates (columns no_production_table)) \<and>
   truthy (find_col crop_candidates (columns no_production_table)) \<and>
   truthy (find_col year_candidates4 (columns no_production_table)) \<and>
   find_col prod_candidates (columns no_production_table) = None \<and>
   \<not> df_empty no_production_table"
  by (simp add: no_production_table_def find_col_def state_candidates_def crop_candidates_def
      year_candidates4_def prod_candidates_def df_empty_def lower_str_def lower_char_def)

theorem C10_missing_production_raises_witness:
  "top_crops_state_table (example_env no_production_table) empty_store =
      Inr (no_production_table, None) \<and>
   \<not> df_empty no_production_table \<and>
   truthy (find_col state_candidates (columns no_production_table)) \<and>
   truthy (find_col crop_candidates (columns no_production_table)) \<and>
   truthy (find_col year_candidates4 (columns no_production_table)) \<and>
   find_col prod_candidates (columns no_production_table) = None \<and>
   compute_top_crops_state (example_env no_production_table) empty_store ''punjab'' 3 2 =
      Inl (KeyError ''Production'') \<and>
   execute (example_env no_production_table) empty_store
      [(''steps'', VList [top_crops_state_step ''punjab'' 3 2])] = Inl (KeyError ''Production'')"
  using no_production_table_chain no_production_table_cols
    C10_missing_production_raises [of "example_env no_production_table" empty_store
      no_production_table None "''punjab''" 3 2 "[]"]
  by blast

text \<open>
  Claim C9 does not hold of the code. \<open>_compute_top_crops_state\<close> is declared to
  return a dict, but a table in which neither a state and crop column nor a
  \<open>_year\<close> column is found reaches the end of the function body: the computation
  returns \<open>None\<close>, and \<open>execute\<close> stores \<open>None\<close> under \<open>top_crops_state\<close>. Here the
  fetched crop table has the single column \<open>foo\<close>.
\<close>

theorem C9_none_payload:
  "map_sum id fst (execute (example_env foo_table) empty_store
     [(''steps'', VList [top_crops_state_step ''punjab'' 3 2])]) =
   Inr [(''plan'', VDict [(''steps'', VList [top_crops_state_step ''punjab'' 3 2])]),
        (''answer_data'', VDict [(''top_crops_state'', VNone)])]"
  by (simp add: execute_def plan_steps_def dict_get_def bind_def run_top_crops_state_step
    record_under_def compute_top_crops_state_def top_crops_state_table_def stored_nonempty_def
    get_dataset_def empty_store_def load_crop_production_def fetch_dataset_def example_env_def
    foo_table_def df_empty_def find_col_def state_candidates_def crop_candidates_def
    year_candidates4_def prod_candidates_def lower_str_def lower_char_def)

section \<open>The recency window\<close>

lemma py_tail_zero: "py_tail 0 xs = xs"
  by (simp add: py_tail_def)

lemma py_tail_pos: "0 < k \<Longrightarrow> py_tail k xs = drop (length xs - nat k) xs"
  by (simp add: py_tail_def)

lemma recent_window_zero: "recent_window 0 ys = ys"
  by (simp add: recent_window_def py_tail_def)

lemma recent_window_pos: "0 < k \<Longrightarrow> recent_window k ys = drop (length ys - nat k) ys"
  by (auto simp: recent_window_def py_tail_def)

lemma py_tail_recent_window: "0 < k \<Longrightarrow> py_tail k ys = recent_window k ys"
  by (simp add: py_tail_pos recent_window_pos)

lemma sorted_unique_sorted: "sorted (sorted_unique vs) \<and> distinct (sorted_unique vs)"
  by (simp add: sorted_unique_def)

lemma sorted_unique_set: "set (sorted_unique vs) = {x. CNum x \<in> set vs}"
proof -
  have "set (nums vs) = {x. CNum x \<in> set vs}"
  proof (induction vs)
    case Nil
    show ?case by (simp add: nums_def List.map_filter_simps)
  next
    case (Cons v vs)
    then show ?case by (cases v) (auto simp: nums_def List.map_filter_simps)
  qed
  then show ?thesis by (simp add: sorted_unique_def)
qed

text \<open>
  For a positive count the window holds the greatest values of the sorted distinct
  years: every year left out is smaller than every year kept, and the window has
  \<open>years\<close> elements, or all of them when there are fewer.
\<close>

lemma recent_window_greatest:
  assumes "0 < k" and "sorted ys" and "distinct ys"
  shows "length (recent_window k ys) = min (nat k) (length ys) \<and>
         set (recent_window k ys) \<subseteq> set ys \<and>
         (\<forall>y \<in> set ys - set (recent_window k ys). \<forall>z \<in> set (recent_window k ys). y < z)"
proof -
  let ?n = "length ys - nat k"
  have w: "recent_window k ys = drop ?n ys" using assms(1) by (rule recent_window_pos)
  have ys: "ys = take ?n ys @ drop ?n ys" by simp
  have le: "\<forall>y \<in> set (take ?n ys). \<forall>z \<in> set (drop ?n ys). y \<le> z"
    using assms(2) sorted_append [of "take ?n ys" "drop ?n ys"]
    by (metis append_take_drop_id)
  have dj: "set (take ?n ys) \<inter> set (drop ?n ys) = {}"
    using assms(3) distinct_append [of "take ?n ys" "drop ?n ys"]
    by (metis append_take_drop_id)
  have "set ys - set (drop ?n ys) \<subseteq> set (take ?n ys)"
    using ys by (metis Diff_subset_conv Un_commute set_append subset_refl)
  then have "\<forall>y \<in> set ys - set (drop ?n ys). \<forall>z \<in> set (drop ?n ys). y < z"
    using le dj by (metis IntI empty_iff order_le_less subsetD)
  moreover have "length (drop ?n ys) = min (nat k) (length ys)" by auto
  moreover have "set (drop ?n ys) \<subseteq> set ys" by (rule set_drop_subset)
  ultimately show ?thesis using w by simp
qed

section \<open>Grouping and sorting\<close>

text \<open>
  The grouped sums: one entry per key, no key missing or repeated, each with the sum
  of its rows. Sorting by descending sum keeps the entries and puts no smaller sum
  before a greater one; the breakdown is ordered by district, then year.
\<close>

lemma group_keys_set: "set (group_keys ks) = set ks - {CNull}"
  by (auto simp: group_keys_def)

lemma group_keys_distinct: "distinct (group_keys ks)"
  by (simp add: group_keys_def)

lemma groupby_sum_keys: "map fst (groupby_sum key val rs) = group_keys (col_vals key rs)"
  by (simp add: groupby_sum_def comp_def)

lemma groupby_sum_entry:
  "(k, v) \<in> set (groupby_sum key val rs) \<Longrightarrow>
   k \<noteq> CNull \<and> k \<in> set (col_vals key rs) \<and>
   v = series_sum (col_vals val (filter (\<lambda>r. cell_of r key = k) rs))"
  using group_keys_set [of "col_vals key rs"] by (auto simp: groupby_sum_def)

lemma sort_desc_descending: "sorted (map (\<lambda>g. - snd g) (sort_desc gs))"
  by (simp add: sort_desc_def)

lemma sort_desc_set: "set (sort_desc gs) = set gs \<and> length (sort_desc gs) = length gs"
  by (simp add: sort_desc_def)

lemma sort_desc_nth:
  assumes "i \<le> j" and "j < length gs"
  shows "snd (sort_desc gs ! j) \<le> snd (sort_desc gs ! i)"
proof -
  have "j < length (map (\<lambda>g. - snd g) (sort_desc gs))"
    using assms(2) by (simp add: sort_desc_set)
  then have "map (\<lambda>g. - snd g) (sort_desc gs) ! i \<le> map (\<lambda>g. - snd g) (sort_desc gs) ! j"
    using sort_desc_descending [of gs] assms(1) by (rule_tac sorted_nth_mono)
  then show ?thesis using assms by (simp add: sort_desc_set)
qed

lemma py_head_take: "\<exists>k. py_head n xs = take k xs"
  by (auto simp: py_head_def)

lemma py_head_nonneg: "0 \<le> n \<Longrightarrow> py_head n xs = take (nat n) xs"
  by (simp add: py_head_def)

lemma sort_district_year_sorted:
  "sorted (map (\<lambda>((a, b), v). (cell_key a, cell_key b)) (sort_district_year gs))"
  by (simp add: sort_district_year_def)

lemma sort_district_year_set: "set (sort_district_year gs) = set gs"
  by (simp add: sort_district_year_def)

section \<open>\<open>_compute_rainfall_compare\<close> on the example table\<close>

text \<open>
  The example of the specification: the table spans 2018 to 2022, \<open>years = 3\<close>
  selects 2020, 2021 and 2022, and the averages are the means of the three annual
  values of each state, found by a case-insensitive substring match.
\<close>

lemma rainfall_three_years:
  "compute_rainfall_compare (example_env rainfall_table) ''karnataka'' ''kerala'' 3 =
     Inr (VDict
       [(''karnataka'', VDict [(''years'', VList [VFloat 2020, VFloat 2021, VFloat 2022]),
                               (''avg_annual_mm'', VFloat 1200)]),
        (''kerala'', VDict [(''years'', VList [VFloat 2020, VFloat 2021, VFloat 2022]),
                            (''avg_annual_mm'', VFloat 2900)])])"
  by code_simp

text \<open>
  Claim C4 does not hold of the code for \<open>years = 0\<close>. The window is the slice
  \<open>sorted(...)[-years:]\<close>, which for \<open>years = 0\<close> is the whole list: instead of the 0
  most recent years (no year, and so no average), all five years are selected and
  averaged.
\<close>

theorem C4_zero_years_selects_all:
  "compute_rainfall_compare (example_env rainfall_table) ''karnataka'' ''kerala'' 0 =
     Inr (VDict
       [(''karnataka'', VDict [(''years'', VList [VFloat 2018, VFloat 2019, VFloat 2020,
                                                  VFloat 2021, VFloat 2022]),
                               (''avg_annual_mm'', VFloat 1140)]),
        (''kerala'', VDict [(''years'', VList [VFloat 2018, VFloat 2019, VFloat 2020,
                                               VFloat 2021, VFloat 2022]),
                            (''avg_annual_mm'', VFloat 2960)])])"
  by code_simp


section \<open>\<open>_compute_top_crops_state\<close> on the example table\<close>

text \<open>
  The example of the specification: two years of Punjab data, wheat 100 and rice 50,
  then wheat 120 and rice 40; the top 2 crops over the last 2 years are wheat with
  220 and rice with 90, in that order. Asking for 3 crops of the last year returns
  the two there are, with the diagnostic sample attached to the success payload.
\<close>

lemma top_crops_state_punjab:
  "map_sum id fst
     (compute_top_crops_state (example_env punjab_table) empty_store ''punjab'' 2 2) =
   Inr (VDict
     [(''state'', VStr ''punjab''), (''top_n'', VInt 2), (''years'', VInt 2),
      (''crops'', VList [VDict [(''Crop'', VStr ''Wheat''), (''Production'', VFloat 220)],
                         VDict [(''Crop'', VStr ''Rice''), (''Production'', VFloat 90)]]),
      (''year_range'', VList [VInt 2019, VInt 2020])])"
  by code_simp

lemma top_crops_state_punjab_debug:
  "map_sum id fst
     (compute_top_crops_state (example_env punjab_table) empty_store ''punjab'' 3 1) =
   Inr (VDict
     [(''state'', VStr ''punjab''), (''top_n'', VInt 3), (''years'', VInt 1),
      (''crops'', VList [VDict [(''Crop'', VStr ''Wheat''), (''Production'', VFloat 120)],
                         VDict [(''Crop'', VStr ''Rice''), (''Production'', VFloat 40)]]),
      (''year_range'', VList [VInt 2020]),
      (''debug_info'', VDict
         [(''total_rows_after_filter'', VInt 2), (''unique_crops_found'', VInt 2),
          (''crops_returned'', VInt 2),
          (''sample_crops'', VList [VStr ''Wheat'', VStr ''Rice'']),
          (''sample_data'', VList
             [VDict [(''Crop'', VStr ''Wheat''), (''Production'', VFloat 120),
                     (''Year'', VFloat 2020)],
              VDict [(''Crop'', VStr ''Rice''), (''Production'', VFloat 40),
                     (''Year'', VFloat 2020)]])])])"
  by code_simp

text \<open>
  The window is taken over the years of the state's rows: with a 2021 row of another
  state in the table, the last year of Punjab is still 2020.
\<close>

lemma top_crops_state_window_per_state:
  "map_sum id fst
     (compute_top_crops_state (example_env punjab_kerala_table) empty_store ''punjab'' 2 1) =
   Inr (VDict
     [(''state'', VStr ''punjab''), (''top_n'', VInt 2), (''years'', VInt 1),
      (''crops'', VList [VDict [(''Crop'', VStr ''Wheat''), (''Production'', VFloat 120)],
                         VDict [(''Crop'', VStr ''Rice''), (''Production'', VFloat 40)]]),
      (''year_range'', VList [VInt 2020])])"
  by code_simp

text \<open>
  Claim C5 does not hold of the code for \<open>years = 0\<close>: the window
  \<open>all_years[-years:] if len(all_years) >= years else all_years\<close> is then the whole
  list, so the sums run over both years of the state instead of over none.
\<close>

theorem C5_zero_years_selects_all:
  "map_sum id fst
     (compute_top_crops_state (example_env punjab_table) empty_store ''punjab'' 2 0) =
   Inr (VDict
     [(''state'', VStr ''punjab''), (''top_n'', VInt 2), (''years'', VInt 0),
      (''crops'', VList [VDict [(''Crop'', VStr ''Wheat''), (''Production'', VFloat 220)],
                         VDict [(''Crop'', VStr ''Rice''), (''Production'', VFloat 90)]]),
      (''year_range'', VList [VInt 2019, VInt 2020])])"
  by code_simp

section \<open>\<open>_compute_district_crop_comparison\<close> on the example table\<close>

text \<open>
  The window is taken over the whole table. The table's years are 2019, 2020 and
  2021, the Punjab wheat rows are of 2019 and 2020: the last 2 years are 2020 and
  2021, so only the 2020 rows are summed, and the last year alone (2021) leaves no
  Punjab wheat row at all. Totals come in descending order, the breakdown by
  district, then year.
\<close>

lemma district_comparison_two_years:
  "map_sum id fst
     (compute_district_crop_comparison (example_env empty_table)
        (store_with district_name district_table) ''punjab'' ''wheat'' 2) =
   Inr (VDict
     [(''state'', VStr ''punjab''), (''crop'', VStr ''wheat''), (''years'', VInt 2),
      (''year_range'', VList [VInt 2020, VInt 2021]),
      (''districts'', VList
         [VDict [(''District_Name'', VStr ''Ludhiana''), (''Production'', VFloat 120)],
          VDict [(''District_Name'', VStr ''Amritsar''), (''Production'', VFloat 90)]]),
      (''district_by_year'', VList
         [VDict [(''District_Name'', VStr ''Amritsar''), (''Year'', VFloat 2020),
                 (''Production'', VFloat 90)],
          VDict [(''District_Name'', VStr ''Ludhiana''), (''Year'', VFloat 2020),
                 (''Production'', VFloat 120)]])])"
  by code_simp

lemma district_comparison_last_year:
  "map_sum id fst
     (compute_district_crop_comparison (example_env empty_table)
        (store_with district_name district_table) ''punjab'' ''wheat'' 1) =
   Inr (VDict
     [(''error'', VStr ''No data found for punjab, wheat''), (''state'', VStr ''punjab''),
      (''crop'', VStr ''wheat''), (''years'', VInt 1)])"
  by code_simp

text \<open>
  Claim C7 does not hold of the code for \<open>years = 0\<close>: the window is then the whole
  list of years, and the totals run over 2019 and 2020 instead of over no year.
\<close>

theorem C7_zero_years_selects_all:
  "map_sum id fst
     (compute_district_crop_comparison (example_env empty_table)
        (store_with district_name district_table) ''punjab'' ''wheat'' 0) =
   Inr (VDict
     [(''state'', VStr ''punjab''), (''crop'', VStr ''wheat''), (''years'', VInt 0),
      (''year_range'', VList [VInt 2019, VInt 2020, VInt 2021]),
      (''districts'', VList
         [VDict [(''District_Name'', VStr ''Ludhiana''), (''Production'', VFloat 220)],
          VDict [(''District_Name'', VStr ''Amritsar''), (''Production'', VFloat 170)]]),
      (''district_by_year'', VList
         [VDict [(''District_Name'', VStr ''Amritsar''), (''Year'', VFloat 2019),
                 (''Production'', VFloat 80)],
          VDict [(''District_Name'', VStr ''Amritsar''), (''Year'', VFloat 2020),
                 (''Production'', VFloat 90)],
          VDict [(''District_Name'', VStr ''Ludhiana''), (''Year'', VFloat 2019),
                 (''Production'', VFloat 100)],
          VDict [(''District_Name'', VStr ''Ludhiana''), (''Year'', VFloat 2020),
                 (''Production'', VFloat 120)]])])"
  by code_simp

section \<open>\<open>_compute_district_highest_crop_year\<close> without a district table\<close>

lemma dict_get_dict_set: "dict_get (dict_set d k v) k' = (if k' = k then Some v else dict_get d k')"
  by (induction d) (auto simp: dict_get_def)

text \<open>
  When no district table is found the answer is decided by the state-level fallback:
  its result with the warning, the note and the suggestion merged in, or else the
  error that names the five required columns and two alternative questions.
\<close>

lemma highest_unavailable:
  assumes "load_district_crop_production e ds0 = (df0, ds)" and "df_empty df0"
  shows "compute_district_highest_crop_year e ds0 state crop year =
           (case try_state_level_fallback e ds state crop year of
              (Some fb, ds') \<Rightarrow> Inr (degraded_answer fb, ds')
            | (None, ds') \<Rightarrow> Inr (unavailable_error e state crop, ds'))"
  using assms by (simp add: compute_district_highest_crop_year_def split: prod.splits option.splits)

lemma degraded_answer_fields:
  "\<exists>d. degraded_answer fb = VDict d \<and>
        dict_get d ''warning'' = Some (VStr fallback_warning) \<and>
        dict_get d ''suggestion'' = Some (VStr fallback_suggestion) \<and>
        dict_get d ''total_production'' = dict_get fb ''total_production''"
  by (simp add: degraded_answer_def dict_get_dict_set)

lemma unavailable_error_fields:
  "\<exists>d. unavailable_error e state crop = VDict d \<and>
        dict_get d ''error'' = Some (VStr (not_available_msg e)) \<and>
        dict_get d ''required_columns'' =
          Some (VList [VStr ''State'', VStr ''District'', VStr ''Crop'', VStr ''Production'', VStr ''Year'']) \<and>
        dict_get d ''alternative_queries'' = Some (VList (map VStr (alternative_queries state crop))) \<and>
        length (alternative_queries state crop) = 2"
  by (simp add: unavailable_error_def dict_get_def required_columns_def alternative_queries_def)

text \<open>
  With no district table and no crop table either, the error payload is returned;
  with a crop table of numbers, the degraded answer carries the sum of the matching
  production values.
\<close>

lemma highest_no_fallback_data:
  "map_sum id fst (compute_district_highest_crop_year (example_env empty_table) empty_store
      ''punjab'' ''wheat'' 2020) =
   Inr (unavailable_error (example_env empty_table) ''punjab'' ''wheat'')"
  by code_simp

lemma highest_numeric_fallback:
  "map_sum id fst (compute_district_highest_crop_year (example_env numeric_crop_table) empty_store
      ''punjab'' ''wheat'' 2020) =
   Inr (VDict [(''state'', VStr ''punjab''), (''crop'', VStr ''wheat''), (''year'', VInt 2020),
               (''total_production'', VFloat 300), (''note'', VStr fallback_note),
               (''warning'', VStr fallback_warning), (''suggestion'', VStr fallback_suggestion)])"
  by code_simp

text \<open>
  On the string-valued table with a year column the year filter compares the loaded
  year cells (strings) with the integer year: no row is left, the fallback gives
  nothing and the error payload is returned, although both rows are of 2020.
\<close>

lemma highest_string_years_no_fallback:
  "map_sum id fst (compute_district_highest_crop_year (example_env string_year_crop_table)
      empty_store ''punjab'' ''wheat'' 2020) =
   Inr (unavailable_error (example_env string_year_crop_table) ''punjab'' ''wheat'')"
  by code_simp

text \<open>
  Claim C8 does not hold of the code where it says that the fallback sums the
  production. \<open>_try_state_level_fallback\<close> filters the rows first and coerces
  \<open>df[prod_col]\<close> to numbers afterwards, so \<open>filtered[prod_col].sum()\<close> runs over the
  cells as loaded. On a crop table whose production values are the strings \<open>100\<close>
  and \<open>200\<close> the reported total is \<open>float("100200")\<close>, not 300.
\<close>

theorem C8_fallback_concatenates_strings:
  "map_sum id fst (compute_district_highest_crop_year (example_env string_crop_table) empty_store
      ''punjab'' ''wheat'' 2020) =
   Inr (VDict [(''state'', VStr ''punjab''), (''crop'', VStr ''wheat''), (''year'', VInt 2020),
               (''total_production'', VFloat 100200), (''note'', VStr fallback_note),
               (''warning'', VStr fallback_warning), (''suggestion'', VStr fallback_suggestion)])"
  by code_simp

section \<open>The keyword extractor\<close>

text \<open>
  Whatever the question, the keyword extractor returns a \<open>rainfall_compare\<close> or a
  \<open>top_crops_state\<close> intent or raises: it never returns a district intent. So when
  no pattern rule matches, \<open>parse_query\<close> returns one of these two intents or the
  unknown intent.
\<close>

lemma keywords_intents:
  "parse_with_keywords question available = Inr d \<Longrightarrow>
   intent_of d = VStr ''rainfall_compare'' \<or> intent_of d = VStr ''top_crops_state''"
  by (auto simp: parse_with_keywords_def rainfall_branch_def top_crops_branch_def Let_def
      intent_of_def dict_get_def split: option.splits list.splits if_splits)

lemma parse_query_no_district_intent:
  assumes "pattern_rules question = None"
  shows "intent_of (parse_query pattern_rules question available) \<in>
           {VStr ''rainfall_compare'', VStr ''top_crops_state'', VStr ''unknown''}"
proof (cases "parse_with_keywords question available")
  case (Inl x)
  then show ?thesis using assms
    by (simp add: parse_query_def unknown_intent_def intent_of_def dict_get_def)
next
  case (Inr d)
  then show ?thesis using assms keywords_intents [OF Inr]
    by (auto simp: parse_query_def)
qed

text \<open>
  A rainfall keyword with two states of the rainfall list gives \<open>rainfall_compare\<close>,
  with the states in the order of the list and the year count read from the question.
\<close>

lemma keywords_rainfall_example:
  "parse_query no_rule ''How much rain did Punjab and Karnataka get over 7 years'' VNone =
     [(''intent'', VStr ''rainfall_compare''), (''state1'', VStr ''karnataka''),
      (''state2'', VStr ''punjab''), (''years'', VInt 7)]"
  by code_simp

text \<open>
  The district question has the district keywords, a known crop, a known state and
  a four-digit year, and the extractor raises NameError; without the year it does
  the same.
\<close>

lemma district_question_entities:
  "py_in ''district'' (lower_str district_question) \<and>
   py_in ''had'' (lower_str district_question) \<and>
   search_word ''rice'' (lower_str district_question) = Some 39 \<and>
   search_word ''karnataka'' (lower_str district_question) = Some 47 \<and>
   search_year district_question = Some 2020"
  by code_simp

lemma district_question_raises:
  "parse_with_keywords district_question VNone = Inl (NameError ''normalize_state_name'')"
  by code_simp

lemma district_question_no_year_raises:
  "parse_with_keywords district_question_no_year VNone =
     Inl (NameError ''normalize_state_name'')"
  by code_simp

text \<open>
  Claim C3 does not hold of the code for the district intents. No pattern rule
  matches the question (every rule needs one of the phrases \<open>compare\<close>, \<open>average
  annual rainfall\<close>, \<open>identify the district\<close>, \<open>list the top\<close>, \<open>which district\<close>);
  the keyword extractor finds the district keywords, the crop, the state and the
  year, and \<open>parse_query\<close> returns the unknown intent, with the year and without it.
\<close>

theorem C3_district_keywords_unknown:
  "parse_query no_rule district_question VNone = unknown_intent district_question VNone \<and>
   parse_query no_rule district_question_no_year VNone =
     unknown_intent district_question_no_year VNone"
  by (simp add: parse_query_def no_rule_def district_question_raises
      district_question_no_year_raises)

end
